theory Spec2Isabelle
  imports Complex_Main "HOL-Library.Word"
begin

section \<open>C arithmetic used by the tuner's front end\<close>

text \<open>
  The user-space runtime (\<open>src/main.c\<close>) is built for x86-64 Linux: \<open>int\<close> has 32 bits
  and \<open>long\<close> has 64 bits. A C \<open>int\<close> is modelled as a HOL \<open>int\<close> inside
  \<open>[-2^31, 2^31)\<close>; the conversion of a \<open>long\<close> to \<open>int\<close> (as in
  \<open>int priority = strtol(...)\<close>) keeps the low 32 bits.
\<close>

definition LONG_MAX :: int where
  "LONG_MAX = 2 ^ 63 - 1"

definition LONG_MIN :: int where
  "LONG_MIN = - (2 ^ 63)"

definition c_int :: "int \<Rightarrow> int" where
  "c_int x = (x + 2 ^ 31) mod 2 ^ 32 - 2 ^ 31"

text \<open>C's \<open>%\<close> truncates towards zero: the remainder has the sign of the dividend.\<close>

definition c_rem :: "int \<Rightarrow> int \<Rightarrow> int" where
  "c_rem a b = sgn a * (\<bar>a\<bar> mod \<bar>b\<bar>)"

subsection \<open>The C library calls of \<open>parse_weights\<close>\<close>

text \<open>
  A C string is modelled by its characters before the terminating NUL.
  \<open>strtol(nptr, &endptr, 10)\<close>: skip white space, read an optional sign, read decimal
  digits; with no digit the result is 0 and \<open>endptr = nptr\<close>; a value outside
  \<open>long\<close> is clamped. The model returns the value and the string \<open>endptr\<close> points at.
\<close>

definition isspace :: "char \<Rightarrow> bool" where
  "isspace c = (of_char c \<in> {32, 9, 10, 11, 12, 13 :: nat})"

definition isdigit :: "char \<Rightarrow> bool" where
  "isdigit c = (48 \<le> (of_char c :: nat) \<and> (of_char c :: nat) \<le> 57)"

definition digit_val :: "char \<Rightarrow> int" where
  "digit_val c = int (of_char c) - 48"

definition digits_val :: "string \<Rightarrow> int" where
  "digits_val ds = foldl (\<lambda>a c. 10 * a + digit_val c) 0 ds"

definition strtol :: "string \<Rightarrow> int \<times> string" where
  "strtol nptr =
     (let s1 = dropWhile isspace nptr;
          neg = (s1 \<noteq> [] \<and> hd s1 = CHR ''-'');
          s2 = (if s1 \<noteq> [] \<and> (hd s1 = CHR ''-'' \<or> hd s1 = CHR ''+'') then tl s1 else s1);
          ds = takeWhile isdigit s2
      in if ds = [] then (0, nptr)
         else (max LONG_MIN (min LONG_MAX (if neg then - digits_val ds else digits_val ds)),
               dropWhile isdigit s2))"

text \<open>
  \<open>strtok(s, ",")\<close> skips leading delimiters; if nothing is left it returns NULL;
  otherwise the token runs to the next delimiter (overwritten by NUL) and the scan
  resumes behind it. The model returns the token and the saved position.
\<close>

definition strtok :: "string \<Rightarrow> (string \<times> string) option" where
  "strtok s =
     (let s1 = dropWhile (\<lambda>c. c = CHR '','') s
      in if s1 = [] then None
         else Some (takeWhile (\<lambda>c. c \<noteq> CHR '','') s1,
                    drop 1 (dropWhile (\<lambda>c. c \<noteq> CHR '','') s1)))"

lemma strtok_shorter:
  "strtok s = Some (tok, rest) \<Longrightarrow> length rest < length s"
proof -
  assume a: "strtok s = Some (tok, rest)"
  let ?s1 = "dropWhile (\<lambda>c. c = CHR '','') s"
  from a have ne: "?s1 \<noteq> []" and r: "rest = drop 1 (dropWhile (\<lambda>c. c \<noteq> CHR '','') ?s1)"
    by (auto simp: strtok_def Let_def split: if_splits)
  have hd1: "hd ?s1 \<noteq> CHR '',''"
    using ne hd_dropWhile [of "\<lambda>c. c = CHR '',''" s] by simp
  have "length (dropWhile (\<lambda>c. c \<noteq> CHR '','') ?s1) \<le> length ?s1"
    by (rule length_dropWhile_le)
  moreover have "length ?s1 \<le> length s"
    by (rule length_dropWhile_le)
  moreover have "length rest < length ?s1"
  proof (cases ?s1)
    case Nil
    with ne show ?thesis by simp
  next
    case (Cons c cs)
    with hd1 have "c \<noteq> CHR '',''" by simp
    then have "dropWhile (\<lambda>c. c \<noteq> CHR '','') ?s1 = dropWhile (\<lambda>c. c \<noteq> CHR '','') cs"
      using Cons by simp
    then have "length rest \<le> length cs"
      using r length_dropWhile_le [of "\<lambda>c. c \<noteq> CHR '',''" cs] by simp
    then show ?thesis using Cons by simp
  qed
  ultimately show ?thesis by simp
qed

subsection \<open>\<open>parse_weights\<close>\<close>

text \<open>
  Modelled from the spec: the constants \<open>MIN_PRIORITY\<close>, \<open>MAX_PRIORITY\<close> and
  \<open>DEFAULT_PRIORITY\<close> of \<open>common.h\<close>, which is not among the sources. The spec gives
  the range \<open>[0, 99]\<close> and the default 50, and the usage text that \<open>print_usage\<close> prints
  says the same.
\<close>

definition MIN_PRIORITY :: int where
  "MIN_PRIORITY = 0"

definition MAX_PRIORITY :: int where
  "MAX_PRIORITY = 99"

definition DEFAULT_PRIORITY :: int where
  "DEFAULT_PRIORITY = 50"

text \<open>
  \<open>core_priority\<close> is a global \<open>int\<close> array of \<open>MAX_THREADS\<close> entries. It is modelled as
  the cells counted from the array's base, so that a store at an index that is not
  below \<open>MAX_THREADS\<close> (which C does not check) is visible as a store past the array.
\<close>

type_synonym int_array = "nat \<Rightarrow> int"

datatype weight_error = NotANumber string | OutOfRange int

text \<open>
  The first loop of \<open>parse_weights\<close>. \<open>active\<close> is \<open>ACTIVE_THREADS\<close>, that is
  \<open>core_last - core_first + 1\<close>; \<open>tok\<close> is the current token with the saved position
  of \<open>strtok\<close>, or \<open>None\<close> for NULL.
\<close>

function weights_loop ::
  "int \<Rightarrow> (string \<times> string) option \<Rightarrow> int \<Rightarrow> int_array \<Rightarrow> weight_error + (int \<times> int_array)"
where
  "weights_loop active None core_count prio = Inr (core_count, prio)"
| "weights_loop active (Some (token, rest)) core_count prio =
     (if core_count = active then Inr (core_count, prio)
      else if snd (strtol token) \<noteq> [] then Inl (NotANumber token)
      else if c_int (fst (strtol token)) < MIN_PRIORITY \<or> c_int (fst (strtol token)) > MAX_PRIORITY
        then Inl (OutOfRange (c_int (fst (strtol token))))
      else weights_loop active (strtok rest) (core_count + 1)
             (prio (nat core_count := c_int (fst (strtol token)))))"
  by pat_completeness auto
termination
  by (relation "measure (\<lambda>(a, tok, c, p). case tok of None \<Rightarrow> 0 | Some (t, r) \<Rightarrow> Suc (length r))")
     (auto split: option.splits dest: strtok_shorter)

text \<open>The second loop: the cores the list did not reach get \<open>DEFAULT_PRIORITY\<close>.\<close>

function pad_loop :: "int \<Rightarrow> int \<Rightarrow> int_array \<Rightarrow> int \<times> int_array" where
  "pad_loop active core_count prio =
     (if core_count < active
      then pad_loop active (core_count + 1) (prio (nat core_count := DEFAULT_PRIORITY))
      else (core_count, prio))"
  by pat_completeness auto
termination
  by (relation "measure (\<lambda>(a, c, p). nat (a - c))") auto

declare pad_loop.simps [simp del]

text \<open>
  \<open>parse_weights\<close> returns \<open>-1\<close> (here \<open>Inl\<close>, with the reason logged) or 0 (here
  \<open>Inr\<close>, with the array as the call leaves it).
\<close>

definition parse_weights :: "int \<Rightarrow> string \<Rightarrow> int_array \<Rightarrow> weight_error + int_array" where
  "parse_weights active weights_args prio =
     (case weights_loop active (strtok weights_args) 0 prio of
        Inl e \<Rightarrow> Inl e
      | Inr (core_count, prio1) \<Rightarrow> Inr (snd (pad_loop active core_count prio1)))"

text \<open>The priorities of the active cores, in core order.\<close>

definition priorities :: "nat \<Rightarrow> int_array \<Rightarrow> int list" where
  "priorities n prio = map prio [0..<n]"

text \<open>
  The vocabulary for statements about \<open>parse_weights\<close>: all tokens \<open>strtok\<close> would
  deliver from a string, the \<open>int\<close> the code reads from a token, the two tests the code
  applies to it, and an array with a block of values stored from an index on.
\<close>

function tokens :: "string \<Rightarrow> string list" where
  "tokens s = (case strtok s of None \<Rightarrow> [] | Some (t, r) \<Rightarrow> t # tokens r)"
  by pat_completeness auto
termination
  by (relation "measure length") (auto dest: strtok_shorter)

declare tokens.simps [simp del]

definition weight_of :: "string \<Rightarrow> int" where
  "weight_of tok = c_int (fst (strtol tok))"

definition weight_ok :: "string \<Rightarrow> bool" where
  "weight_ok tok =
     (snd (strtol tok) = [] \<and> MIN_PRIORITY \<le> weight_of tok \<and> weight_of tok \<le> MAX_PRIORITY)"

definition fill :: "int_array \<Rightarrow> nat \<Rightarrow> int list \<Rightarrow> int_array" where
  "fill prio k vs = (\<lambda>i. if k \<le> i \<and> i < k + length vs then vs ! (i - k) else prio i)"

subsection \<open>Single-precision arithmetic of the start-up code\<close>

text \<open>
  \<open>main\<close> keeps the utilisation factor, the tick interval and the aggressiveness in
  \<open>float\<close> variables. A finite binary32 number is modelled as a pair \<open>F32 m e\<close> that stands
  for \<open>m * 2^e\<close>. Arithmetic rounds the exact result to 24 significant bits, to nearest
  with ties to even, as the SSE unit does; exponent overflow and subnormal numbers are
  outside the model (the operands of the start-up code are far from both), and so are
  infinities and NaN.
\<close>

datatype f32 = F32 int int

function bitlen :: "nat \<Rightarrow> nat" where
  "bitlen n = (if n = 0 then 0 else Suc (bitlen (n div 2)))"
  by pat_completeness auto
termination
  by (relation "measure id") auto

declare bitlen.simps [simp del]

definition f32_value :: "f32 \<Rightarrow> rat" where
  "f32_value x = (case x of F32 m e \<Rightarrow> of_int m * 2 powi e)"

definition f32_round :: "f32 \<Rightarrow> f32" where
  "f32_round x =
     (case x of F32 m e \<Rightarrow>
        if bitlen (nat \<bar>m\<bar>) \<le> 24 then F32 m e
        else let k = bitlen (nat \<bar>m\<bar>) - 24;
                 q = \<bar>m\<bar> div 2 ^ k;
                 r = \<bar>m\<bar> mod 2 ^ k;
                 h = 2 ^ (k - 1);
                 n = (if r < h then q else if h < r then q + 1
                      else if even q then q else q + 1)
             in F32 (sgn m * n) (e + int k))"

definition f32_mul :: "f32 \<Rightarrow> f32 \<Rightarrow> f32" where
  "f32_mul x y = (case x of F32 m e \<Rightarrow> case y of F32 n d \<Rightarrow> f32_round (F32 (m * n) (e + d)))"

text \<open>The conversion of an \<open>int\<close> operand to \<open>float\<close>.\<close>

definition f32_of_int :: "int \<Rightarrow> f32" where
  "f32_of_int i = f32_round (F32 i 0)"

text \<open>
  The conversion of a \<open>float\<close> to \<open>int\<close> discards the fraction (rounds towards zero).
  A result outside \<open>int\<close> is undefined in C; the \<open>cvttss2si\<close> instruction that x86-64
  compilers emit then delivers \<open>INT_MIN\<close>.
\<close>

definition f32_to_int :: "f32 \<Rightarrow> int" where
  "f32_to_int x =
     (case x of F32 m e \<Rightarrow>
        let t = (if 0 \<le> e then m * 2 ^ nat e else sgn m * (\<bar>m\<bar> div 2 ^ nat (- e)))
        in if - (2 ^ 31) \<le> t \<and> t < 2 ^ 31 then t else - (2 ^ 31))"

definition f32_less :: "f32 \<Rightarrow> f32 \<Rightarrow> bool" where
  "f32_less x y =
     (case x of F32 m e \<Rightarrow> case y of F32 n d \<Rightarrow>
        m * 2 ^ nat (e - min e d) < n * 2 ^ nat (d - min e d))"

text \<open>
  The \<open>float\<close> constants of \<open>main\<close>: \<open>0.7\<close> (the initial utilisation factor), \<open>0.0001f\<close>
  and \<open>60.0f\<close> (the bounds of the tick interval) and \<open>1.0\<close>.
\<close>

definition f32_0_7 :: f32 where
  "f32_0_7 = F32 11744051 (- 24)"

definition f32_0_0001 :: f32 where
  "f32_0_0001 = F32 13743895 (- 37)"

definition f32_60 :: f32 where
  "f32_60 = F32 60 0"

definition f32_1 :: f32 where
  "f32_1 = F32 1 0"

section \<open>Start-up: \<open>main\<close>\<close>

text \<open>
  Constants of the headers that are not among the sources (\<open>common.h\<close>, \<open>mab.h\<close>,
  \<open>pmu_core.h\<close>) are parameters of the model.
\<close>

record build_consts =
  MAX_THREADS :: int
  MAX_WEIGHT_STR_LEN :: nat
  MAB :: int
  PMU_COUNTERS :: nat

definition DDR_BW_NOT_SET :: int where
  "DDR_BW_NOT_SET = - 1"

definition DDR_BW_AUTOTEST :: int where
  "DDR_BW_AUTOTEST = - 2"

text \<open>
  What \<open>main\<close> obtains from its collaborators and from the machine: \<open>strtof\<close> of the C
  library, the E-core range of \<open>get_efficient_core_ids\<close>, the result of
  \<open>dmi_get_bandwidth\<close> (an \<open>int\<close>, \<open>-1\<close> when nothing was detected), the results of
  \<open>rdt_mbm_support_check\<close> and \<open>rdt_mbm_init\<close>, the contents of the local array
  \<open>weight_string\<close> when \<open>main\<close> is entered (the code does not initialise it), the
  characters that lie in memory behind that array up to the next NUL, and the memory
  cells at \<open>core_priority\<close>.
\<close>

record environment =
  strtof :: "string \<Rightarrow> f32"
  first_efficiency_core :: int
  last_efficiency_core :: int
  dmi_get_bandwidth :: int
  rdt_mbm_support_check :: int
  rdt_mbm_init :: int
  weight_string_on_entry :: string
  behind_weight_string :: string
  core_priority_on_entry :: int_array

text \<open>The global variables of \<open>main.c\<close> and the two locals of \<open>main\<close> that outlive the option loop.\<close>

record main_state =
  ddr_bw_target :: int
  time_intervall :: f32
  core_first :: int
  core_last :: int
  aggr :: f32
  tunealg :: int
  rdt_enabled :: int
  loglevel :: int
  core_priority :: int_array
  weight_string :: string
  ddr_bw_auto_utilization :: f32

definition ACTIVE_THREADS :: "main_state \<Rightarrow> int" where
  "ACTIVE_THREADS G = core_last G - core_first G + 1"

text \<open>
  How \<open>main\<close> ends its start-up: it returns a value before any worker exists (the flag
  records whether \<open>print_usage\<close> ran), or it has created the workers, given as the
  entries of \<open>gtinfo\<close> it filled in: index and core id.
\<close>

datatype main_outcome =
    Return int bool
  | Started main_state "(int \<times> int) list"

text \<open>The exit status the parent process sees: the low eight bits of the returned value.\<close>

definition exit_status :: "int \<Rightarrow> int" where
  "exit_status r = r mod 256"

text \<open>\<open>for (i = lo; i < hi; i++) a[i] = v;\<close>\<close>

function set_range :: "int \<Rightarrow> int \<Rightarrow> int \<Rightarrow> int_array \<Rightarrow> int_array" where
  "set_range i hi v a = (if i < hi then set_range (i + 1) hi v (a (nat i := v)) else a)"
  by pat_completeness auto
termination
  by (relation "measure (\<lambda>(i, hi, v, a). nat (hi - i))") auto

declare set_range.simps [simp del]

text \<open>\<open>strstr(optarg, "-")\<close>: the rest of the string from the first dash on, or NULL.\<close>

definition strstr_dash :: "string \<Rightarrow> string option" where
  "strstr_dash s =
     (if dropWhile (\<lambda>c. c \<noteq> CHR ''-'') s = [] then None
      else Some (dropWhile (\<lambda>c. c \<noteq> CHR ''-'') s))"

text \<open>
  The two numbers of \<open>--core a-b\<close>: \<open>strtol(optarg, 0, 10)\<close>, and the same for the text
  behind the first dash when there is one.
\<close>

definition core_arg_first :: "string \<Rightarrow> int" where
  "core_arg_first optarg = c_int (fst (strtol optarg))"

definition core_arg_last :: "string \<Rightarrow> int" where
  "core_arg_last optarg =
     (case strstr_dash optarg of
        None \<Rightarrow> core_arg_first optarg
      | Some d \<Rightarrow> c_int (fst (strtol (tl d))))"

text \<open>
  \<open>strncpy(weight_string, optarg, MAX_WEIGHT_STR_LEN)\<close>, as the later \<open>strlen\<close> and
  \<open>strtok\<close> see its result. An argument shorter than the array is copied with its NUL.
  Of a longer one, or one of just that length, \<open>strncpy\<close> copies the first
  \<open>MAX_WEIGHT_STR_LEN\<close> characters and writes no NUL, so the C string runs on into the
  memory behind the array.
\<close>

definition strncpy_weight :: "build_consts \<Rightarrow> environment \<Rightarrow> string \<Rightarrow> string" where
  "strncpy_weight B E optarg =
     (if length optarg < MAX_WEIGHT_STR_LEN B then optarg
      else take (MAX_WEIGHT_STR_LEN B) optarg @ behind_weight_string E)"

text \<open>
  One round of the option loop. \<open>c\<close> is what \<open>getopt_long\<close> returned (the option's short
  letter, or \<open>?\<close> for an option it does not know) and \<open>optarg\<close> its argument.
\<close>

definition handle_option ::
  "build_consts \<Rightarrow> environment \<Rightarrow> char \<Rightarrow> string \<Rightarrow> main_state \<Rightarrow> main_outcome + main_state"
where
  "handle_option B E c optarg G =
     (if c = CHR ''c'' then
        (let G1 = G \<lparr>core_first := core_arg_first optarg, core_last := core_arg_last optarg\<rparr>
         in if core_last G1 - core_first G1 > MAX_THREADS B then Inl (Return (- 1) False)
            else Inr G1)
      else if c = CHR ''d'' then Inr (G \<lparr>ddr_bw_auto_utilization := strtof E optarg\<rparr>)
      else if c = CHR ''t'' then Inr (G \<lparr>ddr_bw_target := DDR_BW_AUTOTEST\<rparr>)
      else if c = CHR ''D'' then Inr (G \<lparr>ddr_bw_target := c_int (fst (strtol optarg))\<rparr>)
      else if c = CHR ''i'' then
        (let t0 = strtof E optarg;
             t1 = (if f32_less t0 f32_0_0001 then f32_0_0001 else t0);
             t2 = (if f32_less f32_60 t1 then f32_60 else t1)
         in Inr (G \<lparr>time_intervall := t2\<rparr>))
      else if c = CHR ''A'' then Inr (G \<lparr>tunealg := c_int (fst (strtol optarg))\<rparr>)
      else if c = CHR ''a'' then Inr (G \<lparr>aggr := strtof E optarg\<rparr>)
      else if c = CHR ''l'' then Inr (G \<lparr>loglevel := c_int (fst (strtol optarg))\<rparr>)
      else if c = CHR ''w'' then Inr (G \<lparr>weight_string := strncpy_weight B E optarg\<rparr>)
      else if c = CHR ''?'' \<or> c = CHR ''h'' then Inl (Return 0 True)
      else Inl (Return (- 1) False))"

text \<open>The option loop runs until \<open>getopt_long\<close> returns \<open>-1\<close>, here the end of the list.\<close>

fun options_loop ::
  "build_consts \<Rightarrow> environment \<Rightarrow> (char \<times> string) list \<Rightarrow> main_state \<Rightarrow> main_outcome + main_state"
where
  "options_loop B E [] G = Inr G"
| "options_loop B E ((c, optarg) # opts) G =
     (case handle_option B E c optarg G of
        Inl r \<Rightarrow> Inl r
      | Inr G1 \<Rightarrow> options_loop B E opts G1)"

text \<open>Without \<open>--core\<close> the E-cores are detected.\<close>

definition detect_cores :: "environment \<Rightarrow> main_state \<Rightarrow> main_outcome + main_state" where
  "detect_cores E G =
     (if core_first G = - 1 \<or> core_last G = - 1 then
        (let G1 = G \<lparr>core_first := first_efficiency_core E, core_last := last_efficiency_core E\<rparr>
         in if core_first G1 = - 1 \<or> core_last G1 = - 1 then Inl (Return (- 1) False)
            else Inr G1)
      else Inr G)"

definition setup_weights :: "main_state \<Rightarrow> main_outcome + main_state" where
  "setup_weights G =
     (if length (weight_string G) \<noteq> 0 then
        (case parse_weights (ACTIVE_THREADS G) (weight_string G) (core_priority G) of
           Inl e \<Rightarrow> Inl (Return (- 1) False)
         | Inr prio \<Rightarrow> Inr (G \<lparr>core_priority := prio\<rparr>))
      else Inr (G \<lparr>core_priority :=
                   set_range 0 (ACTIVE_THREADS G) DEFAULT_PRIORITY (core_priority G)\<rparr>))"

text \<open>
  Lines 444 to 454: without \<open>--ddrbw-set\<close> and \<open>--ddrbw-test\<close> the target is the product of
  the DMI bandwidth and the utilisation factor, computed in \<open>float\<close> and converted to
  \<open>int\<close>; the error test compares that \<open>int\<close> with \<open>-1\<close>.
\<close>

definition setup_ddr_bw :: "environment \<Rightarrow> main_state \<Rightarrow> main_outcome + main_state" where
  "setup_ddr_bw E G =
     (if ddr_bw_target G = DDR_BW_NOT_SET then
        (let G1 = G \<lparr>ddr_bw_target :=
                      f32_to_int (f32_mul (f32_of_int (dmi_get_bandwidth E))
                                          (ddr_bw_auto_utilization G))\<rparr>
         in if ddr_bw_target G1 = - 1 then Inl (Return (- 1) False) else Inr G1)
      else Inr G)"

definition setup_rdt :: "environment \<Rightarrow> main_state \<Rightarrow> main_outcome + main_state" where
  "setup_rdt E G =
     (if rdt_mbm_support_check E = 0 then
        (if rdt_mbm_init E \<noteq> 0 then Inl (Return (rdt_mbm_init E) False)
         else Inr (G \<lparr>rdt_enabled := 1\<rparr>))
      else Inr G)"

text \<open>
  Lines 479 to 483: \<open>for (tnum = 0; tnum <= core_last - core_first; tnum++)\<close> fills in
  \<open>gtinfo[tnum]\<close> and creates the worker.
\<close>

function create_threads :: "main_state \<Rightarrow> int \<Rightarrow> (int \<times> int) list" where
  "create_threads G tnum =
     (if tnum \<le> core_last G - core_first G
      then (tnum, core_first G + tnum) # create_threads G (tnum + 1)
      else [])"
  by pat_completeness auto
termination
  by (relation "measure (\<lambda>(G, tnum). nat (core_last G - core_first G + 1 - tnum))") auto

declare create_threads.simps [simp del]

definition initial_state :: "build_consts \<Rightarrow> environment \<Rightarrow> main_state" where
  "initial_state B E =
     \<lparr>ddr_bw_target = DDR_BW_NOT_SET, time_intervall = f32_1, core_first = - 1,
      core_last = - 1, aggr = f32_1, tunealg = 0, rdt_enabled = 0, loglevel = 3,
      core_priority = set_range 0 (MAX_THREADS B) MIN_PRIORITY (core_priority_on_entry E),
      weight_string = weight_string_on_entry E, ddr_bw_auto_utilization = f32_0_7\<rparr>"

definition and_then ::
  "main_outcome + main_state \<Rightarrow> (main_state \<Rightarrow> main_outcome + main_state) \<Rightarrow> main_outcome + main_state"
where
  "and_then r f = (case r of Inl x \<Rightarrow> Inl x | Inr G \<Rightarrow> f G)"

definition main_startup ::
  "build_consts \<Rightarrow> environment \<Rightarrow> (char \<times> string) list \<Rightarrow> main_outcome" where
  "main_startup B E opts =
     (case and_then (and_then (and_then (and_then
             (options_loop B E opts (initial_state B E))
             (detect_cores E)) setup_weights) (setup_ddr_bw E)) (setup_rdt E) of
        Inl r \<Rightarrow> r
      | Inr G \<Rightarrow> Started G (create_threads G 0))"

section \<open>The worker: \<open>thread_start\<close>\<close>

text \<open>
  \<open>struct thread_state\<close> is declared in \<open>common.h\<close>; the fields below are the ones
  \<open>main.c\<close> uses. The counters are \<open>uint64_t\<close>, and so are taken to be the published
  results. \<open>'v\<close> is the type of \<open>hwpf_msr_value\<close>, the image of the prefetcher registers
  that is handed to \<open>msr_init\<close> and to \<open>msr_hwpf_write\<close>.
\<close>

type_synonym u64 = "64 word"

record 'v thread_state =
  core_id :: int
  hwpf_msr_value :: 'v
  hwpf_msr_dirty :: int
  pmu_result :: "u64 list"
  instructions_retired :: u64
  cpu_cycles :: u64

text \<open>The locals of \<open>thread_start\<close> that live across iterations.\<close>

record thread_locals =
  pmu_old :: "u64 list"
  pmu_new :: "u64 list"
  instructions_old :: u64
  instructions_new :: u64
  cpu_cycles_old :: u64
  cpu_cycles_new :: u64

text \<open>
  What a worker does to the world outside its own variables, in program order. The waits
  stand for the busy-wait loops on \<open>ddrbwflag\<close> and on \<open>syncflag\<close> once they have been
  left.
\<close>

datatype 'v event =
    DdrBwInit
  | BwFlagAdd int
  | WaitAllStarted
  | DdrBwMeasure
  | WaitAllMeasured
  | DdrBwDeinit
  | ProcessExit int
  | MsrInit int
  | MsrHwpfWrite int 'v
  | MsrEnableFixed int
  | PmuCoreConfig int
  | PmuCoreRead int
  | SyncAdd int
  | WaitAllArrived
  | BasicAlg int
  | MabAlg
  | SyncReset
  | WaitReleased
  | CloseMsr int
  | FreeMabBuffers
  | SetQuitFlag
  | RdtMbmReset

fun is_hwpf_write :: "'v event \<Rightarrow> bool" where
  "is_hwpf_write (MsrHwpfWrite c v) = True"
| "is_hwpf_write e = False"


text \<open>\<open>#define CORE_IN_MODULE ((tstate->core_id - core_first) % 4)\<close>\<close>

definition CORE_IN_MODULE :: "main_state \<Rightarrow> 'v thread_state \<Rightarrow> int" where
  "CORE_IN_MODULE G tstate = c_rem (core_id tstate - core_first G) 4"

text \<open>
  What one iteration of the loop reads from outside the thread: the counters
  \<open>pmu_core_read\<close> delivers, and the fields of the thread's state and of the bandit that
  the tuner may have changed by the time the apply phase reads them.
\<close>

record 'v tick_input =
  pmu_read :: "u64 list"
  instructions_read :: u64
  cpu_cycles_read :: u64
  dirty_after_decision :: int
  value_after_decision :: 'v
  arm_value :: 'v

text \<open>Lines 159 to 180: keep the previous sample, read the counters, publish the differences.\<close>

definition sample_phase ::
  "build_consts \<Rightarrow> main_state \<Rightarrow> 'v tick_input \<Rightarrow> 'v thread_state \<times> thread_locals \<Rightarrow>
   'v thread_state \<times> thread_locals"
where
  "sample_phase B G x s =
     (let tstate = fst s; l = snd s;
          l1 = (if tunealg G \<noteq> MAB B
                then l \<lparr>pmu_old := map (\<lambda>i. pmu_new l ! i) [0..<PMU_COUNTERS B]\<rparr>
                else l \<lparr>instructions_old := instructions_new l,
                        cpu_cycles_old := cpu_cycles_new l\<rparr>);
          l2 = l1 \<lparr>pmu_new := pmu_read x, instructions_new := instructions_read x,
                   cpu_cycles_new := cpu_cycles_read x\<rparr>;
          tstate1 = (if tunealg G \<noteq> MAB B
                     then tstate \<lparr>pmu_result :=
                            map (\<lambda>i. pmu_new l2 ! i - pmu_old l2 ! i) [0..<PMU_COUNTERS B]\<rparr>
                     else tstate \<lparr>instructions_retired := instructions_new l2 - instructions_old l2,
                                  cpu_cycles := cpu_cycles_new l2 - cpu_cycles_old l2\<rparr>)
      in (tstate1, l2))"

text \<open>\<open>calculate_settings\<close>: which tuner runs.\<close>

definition calculate_settings :: "build_consts \<Rightarrow> main_state \<Rightarrow> 'v event list" where
  "calculate_settings B G =
     (if tunealg G = 0 \<or> tunealg G = 1 then [BasicAlg (tunealg G)]
      else if tunealg G = MAB B then [MabAlg]
      else [])"

text \<open>Lines 182 to 198: the rendezvous on \<open>syncflag\<close>.\<close>

definition sync_phase :: "build_consts \<Rightarrow> main_state \<Rightarrow> 'v thread_state \<Rightarrow> 'v event list" where
  "sync_phase B G tstate =
     SyncAdd (core_id tstate) #
     (if core_id tstate = core_first G
      then WaitAllArrived # calculate_settings B G @ [SyncReset]
      else if CORE_IN_MODULE G tstate = 0 then [WaitReleased]
      else [])"

text \<open>Lines 201 to 210: the module's first core programs the registers when they are dirty.\<close>

definition apply_phase ::
  "build_consts \<Rightarrow> main_state \<Rightarrow> 'v tick_input \<Rightarrow> 'v thread_state \<Rightarrow>
   'v event list \<times> 'v thread_state"
where
  "apply_phase B G x tstate =
     (let t1 = tstate \<lparr>hwpf_msr_dirty := dirty_after_decision x,
                       hwpf_msr_value := value_after_decision x\<rparr>
      in if CORE_IN_MODULE G t1 = 0 \<and> hwpf_msr_dirty t1 = 1
         then ([MsrHwpfWrite (core_id t1)
                  (if tunealg G = MAB B then arm_value x else hwpf_msr_value t1)],
               t1 \<lparr>hwpf_msr_dirty := 0\<rparr>)
         else ([], t1))"

text \<open>One iteration of \<open>while (quitflag == 0)\<close>.\<close>

definition tick ::
  "build_consts \<Rightarrow> main_state \<Rightarrow> 'v tick_input \<Rightarrow> 'v thread_state \<times> thread_locals \<Rightarrow>
   'v event list \<times> ('v thread_state \<times> thread_locals)"
where
  "tick B G x s =
     (let s1 = sample_phase B G x s;
          a = apply_phase B G x (fst s1)
      in (PmuCoreRead (core_id (fst s)) # sync_phase B G (fst s1) @ fst a, (snd a, snd s1)))"

text \<open>
  The loop runs one iteration for each entry of the list and leaves when it then finds
  \<open>quitflag\<close> set.
\<close>

fun thread_loop ::
  "build_consts \<Rightarrow> main_state \<Rightarrow> 'v tick_input list \<Rightarrow> 'v thread_state \<times> thread_locals \<Rightarrow>
   'v event list \<times> ('v thread_state \<times> thread_locals)"
where
  "thread_loop B G [] s = ([], s)"
| "thread_loop B G (x # xs) s =
     (fst (tick B G x s) @ fst (thread_loop B G xs (snd (tick B G x s))),
      snd (thread_loop B G xs (snd (tick B G x s))))"

text \<open>
  What the initialisation meets outside the thread: the value of the global
  \<open>ddr_bw_target\<close> when the worker reads it at line 119 (the first core overwrites it at
  line 123, so a later worker may find another value than \<open>main\<close> left); the result of
  \<open>ddrmembw_init\<close>; whether the busy-waits on \<open>ddrbwflag\<close> at lines 128 and 136 are ever
  left; the value of \<open>ddr_bw_target\<close> the first core finds at line 141; and the contents
  of \<open>tstate->hwpf_msr_value\<close> when \<open>msr_init\<close> has returned (\<open>msr_init\<close> is not among the
  sources: the model does not say how it comes by them).
\<close>

record 'v init_input =
  target_at_entry :: int
  ddrmembw_init :: int
  all_started :: bool
  all_measured :: bool
  measured_bandwidth :: int
  msr_loaded :: 'v

text \<open>
  Lines 119 to 144, the bandwidth self-test. \<open>Inr\<close> is a worker that goes on to line 147.
  \<open>Inl\<close> is a worker that does not: it calls \<open>exit(-1)\<close>, or it spins in one of the two
  busy-waits for ever; the events are what it did before.
\<close>

definition bandwidth_test ::
  "main_state \<Rightarrow> 'v init_input \<Rightarrow> 'v thread_state \<Rightarrow> 'v event list + 'v event list" where
  "bandwidth_test G i tstate =
     (if target_at_entry i \<noteq> DDR_BW_AUTOTEST then Inr []
      else if core_id tstate = core_first G \<and> ddrmembw_init i < 0
        then Inl [DdrBwInit, ProcessExit (- 1)]
      else if \<not> all_started i
        then Inl ((if core_id tstate = core_first G then [DdrBwInit] else []) @ [BwFlagAdd 1])
      else if \<not> all_measured i
        then Inl ((if core_id tstate = core_first G then [DdrBwInit] else []) @
                  [BwFlagAdd 1, WaitAllStarted, DdrBwMeasure, BwFlagAdd (- 1)])
      else if core_id tstate = core_first G \<and> measured_bandwidth i = 0
        then Inl [DdrBwInit, BwFlagAdd 1, WaitAllStarted, DdrBwMeasure, BwFlagAdd (- 1),
                  WaitAllMeasured, DdrBwDeinit, ProcessExit (- 1)]
      else if core_id tstate = core_first G
        then Inr [DdrBwInit, BwFlagAdd 1, WaitAllStarted, DdrBwMeasure, BwFlagAdd (- 1),
                  WaitAllMeasured, DdrBwDeinit]
      else Inr [BwFlagAdd 1, WaitAllStarted, DdrBwMeasure, BwFlagAdd (- 1), WaitAllMeasured])"

text \<open>Lines 147 to 152.\<close>

definition msr_setup :: "'v init_input \<Rightarrow> 'v thread_state \<Rightarrow> 'v event list \<times> 'v thread_state" where
  "msr_setup i tstate =
     (let t1 = tstate \<lparr>hwpf_msr_value := msr_loaded i\<rparr>
      in ([MsrInit (core_id t1), MsrHwpfWrite (core_id t1) (hwpf_msr_value t1),
           MsrEnableFixed (core_id t1), PmuCoreConfig (core_id t1)], t1))"

text \<open>Lines 213 to 216, after the loop.\<close>

definition thread_exit :: "'v thread_state \<Rightarrow> 'v event list" where
  "thread_exit tstate = [CloseMsr (core_id tstate)]"

text \<open>
  The trace of a worker that is left alone: it stops in the bandwidth test, or runs the
  given iterations and then leaves the loop.
\<close>

definition thread_start ::
  "build_consts \<Rightarrow> main_state \<Rightarrow> 'v init_input \<Rightarrow> 'v tick_input list \<Rightarrow>
   'v thread_state \<Rightarrow> thread_locals \<Rightarrow> 'v event list"
where
  "thread_start B G i xs tstate l =
     (case bandwidth_test G i tstate of
        Inl evs \<Rightarrow> evs
      | Inr evs \<Rightarrow>
          evs @ fst (msr_setup i tstate) @
          fst (thread_loop B G xs (snd (msr_setup i tstate), l)) @
          thread_exit (fst (snd (thread_loop B G xs (snd (msr_setup i tstate), l)))))"

text \<open>
  \<open>exit\<close> in any thread (the \<open>exit(-1)\<close> of the first core in the bandwidth test, the
  \<open>exit(1)\<close> of \<open>sigintHandler\<close>) ends every worker where it stands: what a worker has
  done by then is the first \<open>n\<close> events of its trace, for some \<open>n\<close>.
\<close>

definition cut_short :: "nat \<Rightarrow> 'v event list \<Rightarrow> 'v event list" where
  "cut_short n evs = take n evs"

text \<open>
  \<open>sigintHandler\<close>: it frees the bandit's buffers when the dynamic standard deviation is
  in use, sets \<open>quitflag\<close>, resets RDT when it is enabled and calls \<open>exit(1)\<close>.
\<close>

definition sigintHandler :: "build_consts \<Rightarrow> main_state \<Rightarrow> bool \<Rightarrow> 'v event list" where
  "sigintHandler B G dynamic_sd =
     (if tunealg G = MAB B \<and> dynamic_sd then [FreeMabBuffers] else []) @
     [SetQuitFlag] @
     (if rdt_enabled G \<noteq> 0 then [RdtMbmReset] else []) @
     [ProcessExit 1]"

text \<open>
  The prefetcher registers as the hardware holds them, seen through each core: a
  \<open>msr_hwpf_write\<close> replaces the image, nothing else touches it.
\<close>

fun hardware_after :: "'v event list \<Rightarrow> (int \<Rightarrow> 'v) \<Rightarrow> (int \<Rightarrow> 'v)" where
  "hardware_after [] hw = hw"
| "hardware_after (MsrHwpfWrite c v # evs) hw = hardware_after evs (hw (c := v))"
| "hardware_after (e # evs) hw = hardware_after evs hw"

section \<open>The workers together: the rendezvous on \<open>syncflag\<close>\<close>








section \<open>The kernel module's pseudo-file\<close>

text \<open>
  \<open>kernel_dpf.c\<close> answers requests written to \<open>/proc/dpf_monitor\<close>. The message
  structures and their constants are declared in \<open>kernel_common.h\<close>, which is not
  among the sources: the sizes and limits are parameters, and a message is given by what
  each handler reads from it.
\<close>

type_synonym u32 = "32 word"

record kernel_consts =
  HEADER_SIZE :: nat
  MAX_MSG_SIZE :: nat
  MAX_NUM_CORES :: nat
  MAX_CORES :: nat
  DPF_API_VERSION :: u32

text \<open>The value of \<open>header.type\<close>: one of the seven message types, or anything else.\<close>

datatype msg_type =
    DPF_MSG_INIT
  | DPF_MSG_CORE_RANGE
  | DPF_MSG_CORE_WEIGHT
  | DPF_MSG_TUNING
  | DPF_MSG_DDRBW_SET
  | DPF_MSG_PMU_READ
  | DPF_MSG_MSR_READ
  | DPF_MSG_OTHER nat

record message =
  msg_count :: nat
  header_type :: msg_type
  req_core_start :: int
  req_core_end :: int
  req_weights :: "u32 list"
  req_enable :: u32
  req_set_value :: u32
  req_core_id :: nat

text \<open>The responses the handlers build, with the fields they fill in.\<close>

datatype response =
    RespInit u32
  | RespCoreRange int int int
  | RespCoreWeight nat "u32 list"
  | RespTuning u32
  | RespDdrbwSet u32
  | RespMsrRead "u64 list"
  | RespPmuRead "u64 list"

text \<open>
  \<open>proc_buffer\<close> is NULL, or the 1024 bytes \<open>dpf_module_init\<close> allocates (with
  \<open>proc_buffer_size = 0\<close>), or the response of a handler.
\<close>

datatype proc_buf = Null | Scratch | Response response

record kernel_state =
  proc_buffer :: proc_buf
  proc_buffer_size :: nat
  core_disabled :: "nat \<Rightarrow> bool"
  k_ddr_bw_target :: u32
  keep_running :: bool

text \<open>
  What one call meets outside the state of the module: whether \<open>copy_from_user\<close>,
  \<open>copy_to_user\<close> and \<open>kmalloc\<close> fail, the size of the response structure, and the
  register and counter values \<open>msr_load\<close> and \<open>pmu_update\<close> provide for a core.
\<close>

record kernel_env =
  header_copy_fails :: bool
  msg_alloc_fails :: bool
  msg_copy_fails :: bool
  resp_alloc_fails :: bool
  user_copy_fails :: bool
  resp_size :: "response \<Rightarrow> nat"
  msr_values :: "nat \<Rightarrow> u64 list"
  pmu_values :: "nat \<Rightarrow> u64 list"

definition EINVAL :: int where
  "EINVAL = 22"

definition ENOMEM :: int where
  "ENOMEM = 12"

definition EFAULT :: int where
  "EFAULT = 14"

text \<open>
  The end of every handler: \<open>if (proc_buffer) kfree(proc_buffer);\<close>, then the response
  becomes the buffer.
\<close>

definition publish :: "kernel_env \<Rightarrow> response \<Rightarrow> kernel_state \<Rightarrow> kernel_state" where
  "publish E r K = K \<lparr>proc_buffer := Response r, proc_buffer_size := resp_size E r\<rparr>"

definition handle_init :: "kernel_consts \<Rightarrow> kernel_env \<Rightarrow> kernel_state \<Rightarrow> int \<times> kernel_state" where
  "handle_init C E K =
     (if resp_alloc_fails E then (- ENOMEM, K)
      else (0, publish E (RespInit (DPF_API_VERSION C)) K))"

definition handle_core_range ::
  "kernel_consts \<Rightarrow> kernel_env \<Rightarrow> message \<Rightarrow> kernel_state \<Rightarrow> int \<times> kernel_state" where
  "handle_core_range C E req K =
     (if resp_alloc_fails E then (- ENOMEM, K)
      else (0, publish E
                 (RespCoreRange (req_core_start req) (req_core_end req)
                    (req_core_end req - req_core_start req + 1))
                 (K \<lparr>core_disabled := (\<lambda>core.
                        if core < MAX_NUM_CORES C
                        then int core < req_core_start req \<or> int core > req_core_end req
                        else core_disabled K core)\<rparr>)))"

definition handle_core_weight ::
  "kernel_env \<Rightarrow> message \<Rightarrow> kernel_state \<Rightarrow> int \<times> kernel_state" where
  "handle_core_weight E req K =
     (if resp_alloc_fails E then (- ENOMEM, K)
      else (0, publish E (RespCoreWeight (length (req_weights req)) (req_weights req)) K))"

definition handle_tuning ::
  "kernel_env \<Rightarrow> message \<Rightarrow> kernel_state \<Rightarrow> int \<times> kernel_state" where
  "handle_tuning E req K =
     (if resp_alloc_fails E then (- ENOMEM, K)
      else (0, publish E (RespTuning (req_enable req))
                 (K \<lparr>keep_running := (req_enable req = 1)\<rparr>)))"

definition handle_ddrbw_set ::
  "kernel_env \<Rightarrow> message \<Rightarrow> kernel_state \<Rightarrow> int \<times> kernel_state" where
  "handle_ddrbw_set E req K =
     (if resp_alloc_fails E then (- ENOMEM, K)
      else (0, publish E (RespDdrbwSet (req_set_value req))
                 (K \<lparr>k_ddr_bw_target := req_set_value req\<rparr>)))"

definition handle_msr_read ::
  "kernel_consts \<Rightarrow> kernel_env \<Rightarrow> message \<Rightarrow> kernel_state \<Rightarrow> int \<times> kernel_state" where
  "handle_msr_read C E req K =
     (if req_core_id req \<ge> MAX_NUM_CORES C \<or> core_disabled K (req_core_id req)
      then (- EINVAL, K)
      else if resp_alloc_fails E then (- ENOMEM, K)
      else (0, publish E (RespMsrRead (msr_values E (req_core_id req))) K))"

definition handle_pmu_read ::
  "kernel_consts \<Rightarrow> kernel_env \<Rightarrow> message \<Rightarrow> kernel_state \<Rightarrow> int \<times> kernel_state" where
  "handle_pmu_read C E req K =
     (if req_core_id req \<ge> MAX_NUM_CORES C \<or> core_disabled K (req_core_id req)
      then (- EINVAL, K)
      else if resp_alloc_fails E then (- ENOMEM, K)
      else (0, publish E (RespPmuRead (pmu_values E (req_core_id req))) K))"

text \<open>The \<open>switch (header.type)\<close> of \<open>dpf_proc_write\<close>.\<close>

fun dispatch ::
  "kernel_consts \<Rightarrow> kernel_env \<Rightarrow> msg_type \<Rightarrow> message \<Rightarrow> kernel_state \<Rightarrow> int \<times> kernel_state"
where
  "dispatch C E DPF_MSG_INIT req K = handle_init C E K"
| "dispatch C E DPF_MSG_CORE_RANGE req K = handle_core_range C E req K"
| "dispatch C E DPF_MSG_CORE_WEIGHT req K = handle_core_weight E req K"
| "dispatch C E DPF_MSG_TUNING req K = handle_tuning E req K"
| "dispatch C E DPF_MSG_DDRBW_SET req K = handle_ddrbw_set E req K"
| "dispatch C E DPF_MSG_PMU_READ req K = handle_pmu_read C E req K"
| "dispatch C E DPF_MSG_MSR_READ req K = handle_msr_read C E req K"
| "dispatch C E (DPF_MSG_OTHER n) req K = (- EINVAL, K)"

text \<open>
  Lines 356 to 360 of \<open>dpf_proc_write\<close>: after the size test, and before it looks at the
  message, the function frees the buffer of the previous response.
\<close>

definition discard_response :: "kernel_state \<Rightarrow> kernel_state" where
  "discard_response K =
     (if proc_buffer K \<noteq> Null then K \<lparr>proc_buffer := Null, proc_buffer_size := 0\<rparr> else K)"

text \<open>
  \<open>dpf_proc_write\<close> returns the number of bytes taken or a negative error, and leaves the
  module in a new state.
\<close>

definition dpf_proc_write ::
  "kernel_consts \<Rightarrow> kernel_env \<Rightarrow> message \<Rightarrow> kernel_state \<Rightarrow> int \<times> kernel_state" where
  "dpf_proc_write C E req K =
     (if msg_count req < HEADER_SIZE C \<or> msg_count req > MAX_MSG_SIZE C then (- EINVAL, K)
      else
        (let K1 = discard_response K
         in if header_copy_fails E then (- EFAULT, K1)
            else if msg_alloc_fails E then (- ENOMEM, K1)
            else if msg_copy_fails E then (- EFAULT, K1)
            else (if fst (dispatch C E (header_type req) req K1) < 0
                  then fst (dispatch C E (header_type req) req K1)
                  else int (msg_count req),
                  snd (dispatch C E (header_type req) req K1))))"

text \<open>
  \<open>proc_read\<close> with the caller's \<open>count\<close> and \<open>*pos\<close>: the returned number, what was
  copied to the caller (if anything) and the new \<open>*pos\<close>.
\<close>

definition proc_read ::
  "kernel_env \<Rightarrow> nat \<Rightarrow> nat \<Rightarrow> kernel_state \<Rightarrow> int \<times> proc_buf option \<times> nat" where
  "proc_read E count pos K =
     (if pos > 0 \<or> proc_buffer K = Null \<or> count < proc_buffer_size K then (0, None, pos)
      else if user_copy_fails E then (- EFAULT, None, pos)
      else (int (proc_buffer_size K), Some (proc_buffer K), proc_buffer_size K))"

text \<open>
  \<open>dpf_module_init\<close>: the cores below \<open>MAX_CORES\<close> disabled, the buffer allocated,
  nothing to read yet.
\<close>

definition module_init_state :: "kernel_consts \<Rightarrow> kernel_state" where
  "module_init_state C =
     \<lparr>proc_buffer = Scratch, proc_buffer_size = 0, core_disabled = (\<lambda>core. core < MAX_CORES C),
      k_ddr_bw_target = 0, keep_running = False\<rparr>"

section \<open>Concrete configurations\<close>

text \<open>
  The inputs at which the properties below are evaluated: a build with room for four
  workers, a machine whose DMI tables report 40000 MB/s, a running tuner on cores 0 to 7
  with the basic algorithm, a worker whose \<open>hwpf_msr_value\<close> holds the image 11 after
  \<open>msr_init\<close>, and one iteration in which the counters read 5 after 10 and the tuner asks
  for the image 77.
\<close>

definition example_build :: build_consts where
  "example_build = \<lparr>MAX_THREADS = 4, MAX_WEIGHT_STR_LEN = 256, MAB = 2, PMU_COUNTERS = 7\<rparr>"

definition example_env :: environment where
  "example_env =
     \<lparr>strtof = (\<lambda>a. F32 1 0), first_efficiency_core = 0, last_efficiency_core = 3,
      dmi_get_bandwidth = 40000, rdt_mbm_support_check = 1, rdt_mbm_init = 0,
      weight_string_on_entry = [], behind_weight_string = [],
      core_priority_on_entry = (\<lambda>i. 0)\<rparr>"

definition example_globals :: main_state where
  "example_globals =
     \<lparr>ddr_bw_target = 28000, time_intervall = F32 1 0, core_first = 0, core_last = 7,
      aggr = F32 1 0, tunealg = 0, rdt_enabled = 0, loglevel = 3,
      core_priority = (\<lambda>i. 50), weight_string = [],
      ddr_bw_auto_utilization = F32 11744051 (- 24)\<rparr>"

definition example_tstate :: "int \<Rightarrow> nat thread_state" where
  "example_tstate c =
     \<lparr>core_id = c, hwpf_msr_value = 0, hwpf_msr_dirty = 0, pmu_result = replicate 7 0,
      instructions_retired = 0, cpu_cycles = 0\<rparr>"

definition example_locals :: thread_locals where
  "example_locals =
     \<lparr>pmu_old = replicate 7 0, pmu_new = replicate 7 10, instructions_old = 0,
      instructions_new = 0, cpu_cycles_old = 0, cpu_cycles_new = 0\<rparr>"

definition example_tick :: "nat tick_input" where
  "example_tick =
     \<lparr>pmu_read = replicate 7 5, instructions_read = 0, cpu_cycles_read = 0,
      dirty_after_decision = 1, value_after_decision = 77, arm_value = 88\<rparr>"

definition example_init :: "nat init_input" where
  "example_init =
     \<lparr>target_at_entry = 28000, ddrmembw_init = 0, all_started = True, all_measured = True,
      measured_bandwidth = 30000, msr_loaded = 11\<rparr>"

text \<open>
  A start with \<open>--ddrbw-test\<close> in which some worker never arrives at the first busy-wait
  of the bandwidth test, so that the others spin there for ever.
\<close>

definition example_init_stuck :: "nat init_input" where
  "example_init_stuck =
     \<lparr>target_at_entry = - 2, ddrmembw_init = 0, all_started = False, all_measured = False,
      measured_bandwidth = 0, msr_loaded = 11\<rparr>"





text \<open>
  For the kernel module: a state in which the response to an \<open>INIT\<close> request is
  waiting to be read, and a well-sized message of an unknown type.
\<close>

definition example_kconsts :: kernel_consts where
  "example_kconsts =
     \<lparr>HEADER_SIZE = 8, MAX_MSG_SIZE = 256, MAX_NUM_CORES = 64, MAX_CORES = 64,
      DPF_API_VERSION = 1\<rparr>"

definition example_kenv :: kernel_env where
  "example_kenv =
     \<lparr>header_copy_fails = False, msg_alloc_fails = False, msg_copy_fails = False,
      resp_alloc_fails = False, user_copy_fails = False, resp_size = (\<lambda>r. 12),
      msr_values = (\<lambda>c. []), pmu_values = (\<lambda>c. [])\<rparr>"

definition example_kstate :: kernel_state where
  "example_kstate =
     \<lparr>proc_buffer = Response (RespInit 1), proc_buffer_size = 12,
      core_disabled = (\<lambda>c. True), k_ddr_bw_target = 0, keep_running = False\<rparr>"

definition example_unknown_msg :: message where
  "example_unknown_msg =
     \<lparr>msg_count = 8, header_type = DPF_MSG_OTHER 99, req_core_start = 0, req_core_end = 0,
      req_weights = [], req_enable = 0, req_set_value = 0, req_core_id = 0\<rparr>"

definition example_init_msg :: message where
  "example_init_msg =
     \<lparr>msg_count = 8, header_type = DPF_MSG_INIT, req_core_start = 0, req_core_end = 0,
      req_weights = [], req_enable = 0, req_set_value = 0, req_core_id = 0\<rparr>"

section \<open>Properties of \<open>parse_weights\<close>\<close>

lemma fill_Nil: "fill prio k [] = prio"
  by (rule ext) (auto simp: fill_def)

lemma fill_Cons: "fill (prio (k := v)) (Suc k) vs = fill prio k (v # vs)"
  by (rule ext) (auto simp: fill_def nth_Cons' Suc_diff_le)

lemma tokens_None: "strtok s = None \<Longrightarrow> tokens s = []"
  by (simp add: tokens.simps)

lemma tokens_Some: "strtok s = Some (t, r) \<Longrightarrow> tokens s = t # tokens r"
  by (simp add: tokens.simps)

lemma weights_loop_ok:
  "0 \<le> c \<Longrightarrow> c \<le> active \<Longrightarrow>
   \<forall>t \<in> set (take (nat (active - c)) (tokens s)). weight_ok t \<Longrightarrow>
   weights_loop active (strtok s) c prio =
     Inr (c + int (length (take (nat (active - c)) (tokens s))),
          fill prio (nat c) (map weight_of (take (nat (active - c)) (tokens s))))"
proof (induction s arbitrary: c prio rule: tokens.induct)
  case (1 s)
  show ?case
  proof (cases "strtok s")
    case None
    then show ?thesis by (simp add: tokens_None fill_Nil)
  next
    case (Some tr)
    obtain t r where tr: "tr = (t, r)" by (cases tr)
    have ts: "tokens s = t # tokens r" using Some tr by (simp add: tokens_Some)
    show ?thesis
    proof (cases "c = active")
      case True
      then show ?thesis using Some tr by (simp add: fill_Nil)
    next
      case False
      with "1.prems" have lt: "c < active" by simp
      then have nat_eq: "nat (active - c) = Suc (nat (active - (c + 1)))" by simp
      have tk: "take (nat (active - c)) (tokens s) = t # take (nat (active - (c + 1))) (tokens r)"
        by (simp add: ts nat_eq del: One_nat_def)
      from "1.prems"(3) tk have okt: "weight_ok t"
        and okr: "\<forall>t \<in> set (take (nat (active - (c + 1))) (tokens r)). weight_ok t"
        by simp_all
      have ih: "weights_loop active (strtok r) (c + 1) (prio (nat c := weight_of t)) =
        Inr (c + 1 + int (length (take (nat (active - (c + 1))) (tokens r))),
          fill (prio (nat c := weight_of t)) (nat (c + 1))
            (map weight_of (take (nat (active - (c + 1))) (tokens r))))"
        using "1.IH" [OF Some tr [symmetric], of "c + 1" "prio (nat c := weight_of t)"] "1.prems"(1) lt okr
        by (simp add: fun_upd_def)
      have nc: "nat (c + 1) = Suc (nat c)" using "1.prems"(1) by simp
      show ?thesis
        using okt False ih
        by (simp add: Some tr tk weight_ok_def weight_of_def [symmetric] nc fill_Cons)
    qed
  qed
qed

lemma weights_loop_err:
  "0 \<le> c \<Longrightarrow> c \<le> active \<Longrightarrow>
   \<exists>t \<in> set (take (nat (active - c)) (tokens s)). \<not> weight_ok t \<Longrightarrow>
   \<exists>e. weights_loop active (strtok s) c prio = Inl e"
proof (induction s arbitrary: c prio rule: tokens.induct)
  case (1 s)
  show ?case
  proof (cases "strtok s")
    case None
    with "1.prems"(3) show ?thesis by (simp add: tokens_None)
  next
    case (Some tr)
    obtain t r where tr: "tr = (t, r)" by (cases tr)
    have ts: "tokens s = t # tokens r" using Some tr by (simp add: tokens_Some)
    show ?thesis
    proof (cases "c = active")
      case True
      with "1.prems"(3) show ?thesis by simp
    next
      case False
      with "1.prems" have lt: "c < active" by simp
      then have nat_eq: "nat (active - c) = Suc (nat (active - (c + 1)))" by simp
      have tk: "take (nat (active - c)) (tokens s) = t # take (nat (active - (c + 1))) (tokens r)"
        by (simp add: ts nat_eq del: One_nat_def)
      show ?thesis
      proof (cases "weight_ok t")
        case False
        then show ?thesis using \<open>c \<noteq> active\<close>
          by (auto simp: Some tr weight_ok_def weight_of_def [symmetric])
      next
        case True
        with "1.prems"(3) tk
        have bad: "\<exists>t \<in> set (take (nat (active - (c + 1))) (tokens r)). \<not> weight_ok t"
          by simp
        have "\<exists>e. weights_loop active (strtok r) (c + 1) (prio (nat c := weight_of t)) = Inl e"
          using "1.IH" [OF Some tr [symmetric], of "c + 1" "prio (nat c := weight_of t)"] "1.prems"(1) lt bad
          by (simp add: fun_upd_def)
        then show ?thesis using True \<open>c \<noteq> active\<close>
          by (simp add: Some tr weight_ok_def weight_of_def [symmetric])
      qed
    qed
  qed
qed

lemma pad_loop_eq:
  "0 \<le> c \<Longrightarrow>
   pad_loop active c prio =
     (max c active, fill prio (nat c) (replicate (nat (active - c)) DEFAULT_PRIORITY))"
proof (induction active c prio rule: pad_loop.induct)
  case (1 active c prio)
  show ?case
  proof (cases "c < active")
    case False
    then show ?thesis by (subst pad_loop.simps) (simp add: fill_Nil)
  next
    case True
    then have nat_eq: "nat (active - c) = Suc (nat (active - (c + 1)))" by simp
    have nc: "nat (c + 1) = Suc (nat c)" using "1.prems" by simp
    have "pad_loop active (c + 1) (prio (nat c := DEFAULT_PRIORITY)) =
      (max (c + 1) active, fill (prio (nat c := DEFAULT_PRIORITY)) (nat (c + 1))
         (replicate (nat (active - (c + 1))) DEFAULT_PRIORITY))"
      using "1.IH" [OF True] "1.prems" by (simp add: fun_upd_def)
    then show ?thesis using True
      by (subst pad_loop.simps) (simp add: nat_eq nc fill_Cons del: One_nat_def)
  qed
qed


lemma priorities_fill:
  "length vs \<le> n \<Longrightarrow>
   priorities n (fill (fill prio 0 vs) (length vs) (replicate (n - length vs) d)) =
     vs @ replicate (n - length vs) d"
  by (rule nth_equalityI) (auto simp: priorities_def fill_def nth_append)

lemma priorities_fill_above:
  "n \<le> i \<Longrightarrow> length vs \<le> n \<Longrightarrow>
   fill (fill prio 0 vs) (length vs) (replicate (n - length vs) d) i = prio i"
  by (auto simp: fill_def)

lemma parse_weights_ok:
  assumes "0 \<le> active" and "\<forall>t \<in> set (take (nat active) (tokens args)). weight_ok t"
  shows "parse_weights active args prio =
    Inr (fill (fill prio 0 (map weight_of (take (nat active) (tokens args))))
           (length (take (nat active) (tokens args)))
           (replicate (nat active - length (take (nat active) (tokens args))) DEFAULT_PRIORITY))"
proof -
  let ?ts = "take (nat active) (tokens args)"
  have w: "weights_loop active (strtok args) 0 prio =
      Inr (int (length ?ts), fill prio 0 (map weight_of ?ts))"
    using weights_loop_ok [of 0 active args prio] assms by simp
  have n: "nat (active - int (length ?ts)) = nat active - length ?ts"
    using assms(1) by simp
  have p: "pad_loop active (int (length ?ts)) (fill prio 0 (map weight_of ?ts)) =
      (max (int (length ?ts)) active,
       fill (fill prio 0 (map weight_of ?ts)) (length ?ts)
         (replicate (nat active - length ?ts) DEFAULT_PRIORITY))"
    using pad_loop_eq [of "int (length ?ts)" active "fill prio 0 (map weight_of ?ts)"] n
    by simp
  show ?thesis
    by (simp only: parse_weights_def w p sum.case prod.case snd_conv)
qed

lemma parse_weights_err:
  assumes "0 \<le> active" and "\<exists>t \<in> set (take (nat active) (tokens args)). \<not> weight_ok t"
  shows "\<exists>e. parse_weights active args prio = Inl e"
proof -
  obtain e where "weights_loop active (strtok args) 0 prio = Inl e"
    using weights_loop_err [of 0 active args prio] assms by auto
  then show ?thesis by (simp add: parse_weights_def)
qed

lemma weight_ok_range: "weight_ok t \<Longrightarrow> 0 \<le> weight_of t \<and> weight_of t \<le> 99"
  by (simp add: weight_ok_def MIN_PRIORITY_def MAX_PRIORITY_def)

lemmas eval_strtol = strtol_def isspace_def isdigit_def digits_val_def digit_val_def
  LONG_MAX_def LONG_MIN_def c_int_def Let_def

lemmas eval_weights = parse_weights_def weights_loop.simps pad_loop.simps strtok_def
  eval_strtol MIN_PRIORITY_def MAX_PRIORITY_def DEFAULT_PRIORITY_def priorities_def

lemma weights_four_cores: "map_sum id (priorities 4) (parse_weights 4 ''10,20,30,40'' prio) = Inr [10, 20, 30, 40]"
  by (simp add: eval_weights upt_rec)

lemma weights_three_cores: "map_sum id (priorities 3) (parse_weights 3 ''10,20,30,40'' prio) = Inr [10, 20, 30]"
  by (simp add: eval_weights upt_rec)

lemma weights_six_cores: "map_sum id (priorities 6) (parse_weights 6 ''10,20,30,40'' prio) = Inr [10, 20, 30, 40, 50, 50]"
  by (simp add: eval_weights upt_rec)

lemma weights_short_list: "map_sum id (priorities 4) (parse_weights 4 ''99,10'' prio) = Inr [99, 10, 50, 50]"
  by (simp add: eval_weights upt_rec)



lemma tokens_bad_example: "tokens ''7,x'' = [''7'', ''x'']"
  by (simp add: tokens.simps strtok_def)

lemma weight_ok_bad_example: "weight_ok ''7'' \<and> \<not> weight_ok ''x'' \<and> weight_of ''7'' = 7"
  by (simp add: weight_ok_def weight_of_def eval_strtol MIN_PRIORITY_def MAX_PRIORITY_def)

text \<open>
  What \<open>parse_weights\<close> does, in terms of its own tests. Parsing \<open>"10,20,30,40"\<close> gives
  the priorities \<open>[10,20,30,40]\<close> with four active cores, \<open>[10,20,30]\<close> with three and
  \<open>[10,20,30,40,50,50]\<close> with six, and \<open>"99,10"\<close> gives \<open>[99,10,50,50]\<close> with four,
  whatever the array held before. In general, for a number of active cores that is not
  negative: the call succeeds exactly when each of the first \<open>ACTIVE_THREADS\<close> tokens
  passes the two tests of the code (\<open>strtol\<close> consumes the whole token, and the value
  converted to \<open>int\<close> lies in \<open>[0, 99]\<close>); then the active cores get these \<open>int\<close> values in
  order, and the cores the list does not reach get 50.
\<close>

theorem parse_weights_priorities:
  "map_sum id (priorities 4) (parse_weights 4 ''10,20,30,40'' prio) = Inr [10, 20, 30, 40]
   \<and> map_sum id (priorities 3) (parse_weights 3 ''10,20,30,40'' prio) = Inr [10, 20, 30]
   \<and> map_sum id (priorities 6) (parse_weights 6 ''10,20,30,40'' prio) =
       Inr [10, 20, 30, 40, 50, 50]
   \<and> map_sum id (priorities 4) (parse_weights 4 ''99,10'' prio) = Inr [99, 10, 50, 50]
   \<and> (0 \<le> active \<longrightarrow>
        (if list_all weight_ok (take (nat active) (tokens args))
         then \<exists>prio'. parse_weights active args prio = Inr prio'
                \<and> priorities (nat active) prio' =
                    map weight_of (take (nat active) (tokens args)) @
                    replicate (nat active - length (tokens args)) DEFAULT_PRIORITY
                \<and> list_all (\<lambda>p. 0 \<le> p \<and> p \<le> 99) (priorities (nat active) prio')
         else \<exists>e. parse_weights active args prio = Inl e))"
proof -
  have general: "if list_all weight_ok (take (nat active) (tokens args))
         then \<exists>prio'. parse_weights active args prio = Inr prio'
                \<and> priorities (nat active) prio' =
                    map weight_of (take (nat active) (tokens args)) @
                    replicate (nat active - length (tokens args)) DEFAULT_PRIORITY
                \<and> list_all (\<lambda>p. 0 \<le> p \<and> p \<le> 99) (priorities (nat active) prio')
         else \<exists>e. parse_weights active args prio = Inl e"
    if nn: "0 \<le> active"
  proof (cases "list_all weight_ok (take (nat active) (tokens args))")
    case True
    let ?ts = "take (nat active) (tokens args)"
    let ?vs = "map weight_of ?ts"
    let ?p = "fill (fill prio 0 ?vs) (length ?vs) (replicate (nat active - length ?vs) DEFAULT_PRIORITY)"
    from True have ok: "\<forall>t \<in> set ?ts. weight_ok t" by (simp add: list_all_iff)
    have r: "parse_weights active args prio = Inr ?p"
      using parse_weights_ok [OF nn ok, of prio] by simp
    have len: "length ?vs \<le> nat active" by simp
    have pr: "priorities (nat active) ?p = ?vs @ replicate (nat active - length ?vs) DEFAULT_PRIORITY"
      using len by (rule priorities_fill)
    have d: "nat active - length ?vs = nat active - length (tokens args)" by simp
    have rng: "list_all (\<lambda>p. 0 \<le> p \<and> p \<le> 99) (?vs @ replicate (nat active - length ?vs) DEFAULT_PRIORITY)"
      using ok by (auto simp: list_all_iff DEFAULT_PRIORITY_def dest: weight_ok_range)
    show ?thesis using True r pr rng unfolding d by auto
  next
    case False
    then have "\<exists>t \<in> set (take (nat active) (tokens args)). \<not> weight_ok t"
      by (simp add: list_all_iff)
    from parse_weights_err [OF nn this, of prio] False show ?thesis by simp
  qed
  show ?thesis
    using weights_four_cores [of prio] weights_three_cores [of prio] weights_six_cores [of prio] weights_short_list [of prio] general by blast
qed

theorem parse_weights_priorities_witness:
  "(0 :: int) \<le> 2 \<and> \<not> list_all weight_ok (take (nat 2) (tokens ''7,x''))
   \<and> (\<exists>e. parse_weights 2 ''7,x'' (\<lambda>i. 0) = Inl e)
   \<and> list_all weight_ok (take (nat 1) (tokens ''7,x''))
   \<and> (\<exists>p. parse_weights 1 ''7,x'' (\<lambda>i. 0) = Inr p \<and> priorities 1 p = [7])"
proof -
  have a: "\<not> list_all weight_ok (take (nat 2) (tokens ''7,x''))"
    by (simp add: tokens_bad_example weight_ok_bad_example)
  have b: "list_all weight_ok (take (nat 1) (tokens ''7,x''))"
    by (simp add: tokens_bad_example weight_ok_bad_example)
  have "\<exists>e. parse_weights 2 ''7,x'' (\<lambda>i. 0) = Inl e"
    using parse_weights_priorities [of "\<lambda>i. 0" 2 "''7,x''"] a by simp
  moreover have "\<exists>p. parse_weights 1 ''7,x'' (\<lambda>i. 0) = Inr p \<and> priorities 1 p = [7]"
    using parse_weights_priorities [of "\<lambda>i. 0" 1 "''7,x''"] b by (simp add: tokens_bad_example weight_ok_bad_example) blast
  ultimately show ?thesis using a b by simp
qed



text \<open>
  Claim C6 at the failing input. The claim, like the comment above \<open>parse_weights\<close>,
  has every listed value that is not an integer in \<open>[0, 99]\<close> end in an error, and for
  values that fit an \<open>int\<close> the code does so: \<open>"100"\<close> is refused. But the range test sees
  the value only after the conversion from \<open>long\<close> to \<open>int\<close> in
  \<open>int priority = strtol(...)\<close>, which keeps the low 32 bits. \<open>"4294967306"\<close>, which is
  \<open>2^32 + 10\<close>, is accepted and sets the priority 10; \<open>"-4294967295"\<close> is accepted and
  sets the priority 1.
\<close>

theorem weight_beyond_int_is_accepted:
  "fst (strtol ''4294967306'') = 2 ^ 32 + 10
   \<and> map_sum id (priorities 1) (parse_weights 1 ''4294967306'' prio) = Inr [10]
   \<and> fst (strtol ''-4294967295'') = - (2 ^ 32) + 1
   \<and> map_sum id (priorities 1) (parse_weights 1 ''-4294967295'' prio) = Inr [1]
   \<and> parse_weights 1 ''100'' prio = Inl (OutOfRange 100)"
  by (simp add: eval_weights upt_rec)

section \<open>Properties of the start-up\<close>

lemma create_threads_eq:
  "create_threads G t = map (\<lambda>k. (k, core_first G + k)) [t..core_last G - core_first G]"
proof (induction G t rule: create_threads.induct)
  case (1 G tnum)
  show ?case
  proof (cases "tnum \<le> core_last G - core_first G")
    case True
    then show ?thesis
      using "1.IH" by (subst create_threads.simps) (simp add: upto_rec1 [of tnum])
  next
    case False
    then show ?thesis by (subst create_threads.simps) simp
  qed
qed

lemma set_range_eq:
  "0 \<le> i \<Longrightarrow> set_range i hi v a = (\<lambda>k. if nat i \<le> k \<and> int k < hi then v else a k)"
proof (induction i hi v a rule: set_range.induct)
  case (1 i hi v a)
  show ?case
  proof (cases "i < hi")
    case True
    have "set_range (i + 1) hi v (a (nat i := v)) =
        (\<lambda>k. if nat (i + 1) \<le> k \<and> int k < hi then v else (a (nat i := v)) k)"
      using "1.IH" [OF True] "1.prems" by (simp add: fun_upd_def)
    then show ?thesis using True "1.prems"
      by (subst set_range.simps) (auto simp: fun_eq_iff)
  next
    case False
    then show ?thesis using "1.prems"
      by (subst set_range.simps) (auto simp: fun_eq_iff)
  qed
qed

lemma options_loop_append:
  "options_loop B E (pre @ rest) G =
     (case options_loop B E pre G of Inl r \<Rightarrow> Inl r | Inr G1 \<Rightarrow> options_loop B E rest G1)"
  by (induction pre arbitrary: G) (auto split: sum.splits)

lemma handle_unknown:
  "c = CHR ''?'' \<or> c = CHR ''h'' \<Longrightarrow> handle_option B E c optarg G = Inl (Return 0 True)"
  by (auto simp: handle_option_def)

lemma upto_0_4: "[0..4::int] = [0, 1, 2, 3, 4]"
  by (simp add: upto_rec1)

lemma upto_0_3: "[0..3::int] = [0, 1, 2, 3]"
  by (simp add: upto_rec1)

lemma core_arg_0_4: "core_arg_first ''0-4'' = 0 \<and> core_arg_last ''0-4'' = 4"
  by (simp add: core_arg_first_def core_arg_last_def strstr_dash_def eval_strtol)

lemma bandwidth_40000: "f32_to_int (f32_mul (f32_of_int 40000) f32_0_7) = 28000"
  by (simp add: f32_to_int_def f32_mul_def f32_of_int_def f32_round_def f32_0_7_def
      bitlen.simps Let_def)

lemma bandwidth_minus_1: "f32_to_int (f32_mul (f32_of_int (- 1)) f32_0_7) = 0"
  by (simp add: f32_to_int_def f32_mul_def f32_of_int_def f32_round_def f32_0_7_def
      bitlen.simps)

lemma f32_0_7_nearest: "\<bar>7 / 10 - f32_value f32_0_7\<bar> < 1 / 2 ^ 25"
  by (simp add: f32_value_def f32_0_7_def power_int_minus)

text \<open>
  Claim C8, as the code has it. When the option loop reaches an option that
  \<open>getopt_long\<close> does not know (it returns \<open>?\<close>), or \<open>--help\<close>, before an earlier option
  has ended the run, \<open>main\<close> calls \<open>print_usage\<close> and returns 0: the exit status of an
  unknown option is 0, the same as for \<open>--help\<close>.
\<close>

theorem unknown_option_prints_usage_returns_zero:
  assumes "options_loop B E pre (initial_state B E) = Inr G"
    and "c = CHR ''?'' \<or> c = CHR ''h''"
  shows "main_startup B E (pre @ (c, optarg) # post) = Return 0 True \<and> exit_status 0 = 0"
proof -
  have "options_loop B E (pre @ (c, optarg) # post) (initial_state B E) = Inl (Return 0 True)"
    using assms by (simp add: options_loop_append handle_unknown)
  then show ?thesis
    by (simp add: main_startup_def and_then_def exit_status_def)
qed

theorem unknown_option_prints_usage_returns_zero_witness:
  "options_loop example_build example_env [(CHR ''A'', ''1'')]
     (initial_state example_build example_env) =
     Inr ((initial_state example_build example_env) \<lparr>tunealg := 1\<rparr>)
   \<and> main_startup example_build example_env
        ([(CHR ''A'', ''1'')] @ (CHR ''?'', []) # [(CHR ''c'', ''0-3'')]) = Return 0 True"
proof -
  have a: "options_loop example_build example_env [(CHR ''A'', ''1'')]
      (initial_state example_build example_env) =
      Inr ((initial_state example_build example_env) \<lparr>tunealg := 1\<rparr>)"
    by (simp add: handle_option_def eval_strtol)
  have q: "CHR ''?'' = CHR ''?'' \<or> CHR ''?'' = CHR ''h''" by simp
  show ?thesis
    using a unknown_option_prints_usage_returns_zero [OF a q, of "[]" "[(CHR ''c'', ''0-3'')]"]
    by simp
qed

text \<open>
  The claim as the spec states it fails: for the single unknown option the returned
  value is 0, and the exit status is not 2.
\<close>

theorem unknown_option_exit_status_counterexample:
  "main_startup example_build example_env [(CHR ''?'', [])] = Return 0 True
   \<and> exit_status 0 \<noteq> 2"
  by (simp add: main_startup_def and_then_def handle_option_def exit_status_def)

text \<open>
  Claim C9. The test of \<open>--core a-b\<close> ends the run exactly when \<open>b - a\<close> is greater than
  \<open>MAX_THREADS\<close>. A range with \<open>b - a = MAX_THREADS\<close> is accepted; it has
  \<open>MAX_THREADS + 1\<close> active threads, and the start-up loop fills in the entries
  \<open>0, ..., MAX_THREADS\<close> of \<open>gtinfo\<close>: \<open>MAX_THREADS + 1\<close> workers, the last one at index
  \<open>MAX_THREADS\<close>, which an array of \<open>MAX_THREADS\<close> entries does not have.
\<close>

theorem core_range_check_admits_one_too_many:
  "((\<exists>r. handle_option B E (CHR ''c'') optarg G = Inl r) \<longleftrightarrow>
      core_arg_last optarg - core_arg_first optarg > MAX_THREADS B)
   \<and> (core_arg_last optarg - core_arg_first optarg = MAX_THREADS B \<longrightarrow> 0 \<le> MAX_THREADS B \<longrightarrow>
        (\<exists>G1. handle_option B E (CHR ''c'') optarg G = Inr G1
           \<and> ACTIVE_THREADS G1 = MAX_THREADS B + 1
           \<and> create_threads G1 0 = map (\<lambda>t. (t, core_first G1 + t)) [0..MAX_THREADS B]
           \<and> int (length (create_threads G1 0)) = MAX_THREADS B + 1
           \<and> fst (last (create_threads G1 0)) = MAX_THREADS B))"
proof -
  let ?G1 = "G \<lparr>core_first := core_arg_first optarg, core_last := core_arg_last optarg\<rparr>"
  have a: "(\<exists>r. handle_option B E (CHR ''c'') optarg G = Inl r) \<longleftrightarrow>
      core_arg_last optarg - core_arg_first optarg > MAX_THREADS B"
    by (simp add: handle_option_def Let_def)
  have b: "\<exists>G1. handle_option B E (CHR ''c'') optarg G = Inr G1
           \<and> ACTIVE_THREADS G1 = MAX_THREADS B + 1
           \<and> create_threads G1 0 = map (\<lambda>t. (t, core_first G1 + t)) [0..MAX_THREADS B]
           \<and> int (length (create_threads G1 0)) = MAX_THREADS B + 1
           \<and> fst (last (create_threads G1 0)) = MAX_THREADS B"
    if eq: "core_arg_last optarg - core_arg_first optarg = MAX_THREADS B" and nn: "0 \<le> MAX_THREADS B"
  proof -
    have h: "handle_option B E (CHR ''c'') optarg G = Inr ?G1"
      using eq by (simp add: handle_option_def Let_def)
    have ct: "create_threads ?G1 0 = map (\<lambda>t. (t, core_first ?G1 + t)) [0..MAX_THREADS B]"
      using eq by (simp add: create_threads_eq)
    have ne: "[0..MAX_THREADS B] \<noteq> []" using nn by (simp add: upto_rec1)
    have l: "last [0..MAX_THREADS B] = MAX_THREADS B"
      using nn by (simp add: upto_rec2)
    have "fst (last (create_threads ?G1 0)) = MAX_THREADS B"
      using ne l by (simp add: ct last_map)
    moreover have "int (length (create_threads ?G1 0)) = MAX_THREADS B + 1"
      using nn by (simp add: ct)
    moreover have "ACTIVE_THREADS ?G1 = MAX_THREADS B + 1"
      using eq by (simp add: ACTIVE_THREADS_def)
    ultimately show ?thesis using h ct by blast
  qed
  from a b show ?thesis by blast
qed

theorem core_range_check_admits_one_too_many_witness:
  "core_arg_last ''0-4'' - core_arg_first ''0-4'' = MAX_THREADS example_build
   \<and> 0 \<le> MAX_THREADS example_build
   \<and> (\<exists>G1. handle_option example_build example_env (CHR ''c'') ''0-4''
              (initial_state example_build example_env) = Inr G1
          \<and> create_threads G1 0 = [(0, 0), (1, 1), (2, 2), (3, 3), (4, 4)])"
proof -
  have m: "MAX_THREADS example_build = 4" by (simp add: example_build_def)
  have h: "handle_option example_build example_env (CHR ''c'') ''0-4''
      (initial_state example_build example_env) =
      Inr ((initial_state example_build example_env) \<lparr>core_first := 0, core_last := 4\<rparr>)"
    by (simp add: handle_option_def core_arg_0_4 m)
  show ?thesis
    using core_range_check_admits_one_too_many
      [of example_build example_env "''0-4''" "initial_state example_build example_env"]
    by (simp add: core_arg_0_4 h m upto_0_4)
qed

text \<open>
  The whole start-up for \<open>--core 0-4\<close> in a build with \<open>MAX_THREADS = 4\<close>: five workers
  are created, and the default priority is stored at index 4 of \<open>core_priority\<close> as well.
\<close>

lemma startup_with_five_cores:
  "\<exists>G. main_startup example_build example_env [(CHR ''c'', ''0-4'')] =
         Started G [(0, 0), (1, 1), (2, 2), (3, 3), (4, 4)]
       \<and> core_priority G 4 = DEFAULT_PRIORITY"
proof -
  let ?G0 = "initial_state example_build example_env"
  let ?G1 = "?G0 \<lparr>core_first := 0, core_last := 4\<rparr>"
  let ?G2 = "?G1 \<lparr>core_priority := set_range 0 5 DEFAULT_PRIORITY (core_priority ?G0)\<rparr>"
  let ?G3 = "?G2 \<lparr>ddr_bw_target := 28000\<rparr>"
  have o: "options_loop example_build example_env [(CHR ''c'', ''0-4'')] ?G0 = Inr ?G1"
    by (simp add: handle_option_def core_arg_0_4 example_build_def)
  have d: "detect_cores example_env ?G1 = Inr ?G1"
    by (simp add: detect_cores_def)
  have w: "setup_weights ?G1 = Inr ?G2"
    by (simp add: setup_weights_def ACTIVE_THREADS_def initial_state_def example_env_def)
  have b: "setup_ddr_bw example_env ?G2 = Inr ?G3"
    by (simp add: setup_ddr_bw_def initial_state_def bandwidth_40000 DDR_BW_NOT_SET_def
        example_env_def)
  have r: "setup_rdt example_env ?G3 = Inr ?G3"
    by (simp add: setup_rdt_def example_env_def)
  have c: "create_threads ?G3 0 = [(0, 0), (1, 1), (2, 2), (3, 3), (4, 4)]"
    by (simp add: create_threads_eq upto_0_4)
  have m: "main_startup example_build example_env [(CHR ''c'', ''0-4'')] =
      Started ?G3 [(0, 0), (1, 1), (2, 2), (3, 3), (4, 4)]"
    by (simp only: main_startup_def o d w b r c and_then_def sum.case)
  have p: "core_priority ?G3 4 = DEFAULT_PRIORITY"
    by (simp add: set_range_eq)
  from m p show ?thesis by blast
qed

text \<open>
  Claim C5 at the failing input. Without \<open>--ddrbw-set\<close> and \<open>--ddrbw-test\<close> the target is
  the \<open>float\<close> product of the DMI bandwidth and the utilisation factor, converted to
  \<open>int\<close>. When \<open>dmi_get_bandwidth\<close> returns \<open>-1\<close> and the factor is the default, the product
  is about \<open>-0.7\<close> and the conversion gives 0; the error test compares with \<open>-1\<close>, does
  not fire, and the start-up goes on with the target 0 and creates the workers.
\<close>

theorem dmi_failure_passes_the_error_test:
  "setup_ddr_bw (E \<lparr>dmi_get_bandwidth := - 1\<rparr>)
     (G \<lparr>ddr_bw_target := DDR_BW_NOT_SET, ddr_bw_auto_utilization := f32_0_7\<rparr>) =
     Inr (G \<lparr>ddr_bw_target := 0, ddr_bw_auto_utilization := f32_0_7\<rparr>)
   \<and> (\<exists>G1. main_startup example_build (example_env \<lparr>dmi_get_bandwidth := - 1\<rparr>) [] =
           Started G1 [(0, 0), (1, 1), (2, 2), (3, 3)]
         \<and> ddr_bw_target G1 = 0)"
proof -
  let ?E = "example_env \<lparr>dmi_get_bandwidth := - 1\<rparr>"
  let ?G0 = "initial_state example_build ?E"
  let ?G1 = "?G0 \<lparr>core_first := 0, core_last := 3\<rparr>"
  let ?G2 = "?G1 \<lparr>core_priority := set_range 0 4 DEFAULT_PRIORITY (core_priority ?G0)\<rparr>"
  let ?G3 = "?G2 \<lparr>ddr_bw_target := 0\<rparr>"
  have s: "setup_ddr_bw (E \<lparr>dmi_get_bandwidth := - 1\<rparr>)
     (G \<lparr>ddr_bw_target := DDR_BW_NOT_SET, ddr_bw_auto_utilization := f32_0_7\<rparr>) =
     Inr (G \<lparr>ddr_bw_target := 0, ddr_bw_auto_utilization := f32_0_7\<rparr>)"
    by (simp add: setup_ddr_bw_def bandwidth_minus_1 DDR_BW_NOT_SET_def)
  have o: "options_loop example_build ?E [] ?G0 = Inr ?G0"
    by simp
  have d: "detect_cores ?E ?G0 = Inr ?G1"
    by (simp add: detect_cores_def initial_state_def example_env_def)
  have w: "setup_weights ?G1 = Inr ?G2"
    by (simp add: setup_weights_def ACTIVE_THREADS_def initial_state_def example_env_def)
  have b: "setup_ddr_bw ?E ?G2 = Inr ?G3"
    by (simp add: setup_ddr_bw_def initial_state_def bandwidth_minus_1 DDR_BW_NOT_SET_def
        example_env_def)
  have r: "setup_rdt ?E ?G3 = Inr ?G3"
    by (simp add: setup_rdt_def example_env_def)
  have c: "create_threads ?G3 0 = [(0, 0), (1, 1), (2, 2), (3, 3)]"
    by (simp add: create_threads_eq upto_0_3)
  have m: "main_startup example_build ?E [] = Started ?G3 [(0, 0), (1, 1), (2, 2), (3, 3)]"
    by (simp only: main_startup_def o d w b r c and_then_def sum.case)
  have t: "ddr_bw_target ?G3 = 0" by simp
  from s m t show ?thesis by blast
qed

section \<open>Properties of the worker\<close>

lemmas eval_thread = thread_start_def bandwidth_test_def msr_setup_def thread_exit_def
  tick_def sample_phase_def sync_phase_def apply_phase_def calculate_settings_def
  CORE_IN_MODULE_def c_rem_def DDR_BW_AUTOTEST_def Let_def

lemmas examples = example_build_def example_globals_def example_tstate_def
  example_locals_def example_tick_def example_init_def

text \<open>The traces of the workers on cores 0, 1, 2 and 4 for one iteration.\<close>

lemma trace_core_0:
  "thread_start example_build example_globals example_init [example_tick]
     (example_tstate 0) example_locals =
   [MsrInit 0, MsrHwpfWrite 0 11, MsrEnableFixed 0, PmuCoreConfig 0,
    PmuCoreRead 0, SyncAdd 0, WaitAllArrived, BasicAlg 0, SyncReset, MsrHwpfWrite 0 77,
    CloseMsr 0]"
  by (simp add: eval_thread examples)

lemma trace_core_1:
  "thread_start example_build example_globals example_init [example_tick]
     (example_tstate 1) example_locals =
   [MsrInit 1, MsrHwpfWrite 1 11, MsrEnableFixed 1, PmuCoreConfig 1,
    PmuCoreRead 1, SyncAdd 1, CloseMsr 1]"
  by (simp add: eval_thread examples)

lemma trace_core_2:
  "thread_start example_build example_globals example_init [example_tick]
     (example_tstate 2) example_locals =
   [MsrInit 2, MsrHwpfWrite 2 11, MsrEnableFixed 2, PmuCoreConfig 2,
    PmuCoreRead 2, SyncAdd 2, CloseMsr 2]"
  by (simp add: eval_thread examples)

lemma trace_core_4:
  "thread_start example_build example_globals example_init [example_tick]
     (example_tstate 4) example_locals =
   [MsrInit 4, MsrHwpfWrite 4 11, MsrEnableFixed 4, PmuCoreConfig 4,
    PmuCoreRead 4, SyncAdd 4, WaitReleased, MsrHwpfWrite 4 77, CloseMsr 4]"
  by (simp add: eval_thread examples)

lemma sample_phase_core_id: "core_id (fst (sample_phase B G x s)) = core_id (fst s)"
  by (simp add: sample_phase_def Let_def)

lemma apply_phase_core_id: "core_id (snd (apply_phase B G x tstate)) = core_id tstate"
  by (simp add: apply_phase_def Let_def)

lemma tick_core_id: "core_id (fst (snd (tick B G x s))) = core_id (fst s)"
  by (simp add: tick_def Let_def apply_phase_core_id sample_phase_core_id)

lemma thread_loop_core_id: "core_id (fst (snd (thread_loop B G xs s))) = core_id (fst s)"
  by (induction xs arbitrary: s) (simp_all add: tick_core_id)

lemma CORE_IN_MODULE_cong:
  "core_id t = core_id t' \<Longrightarrow> CORE_IN_MODULE G t = CORE_IN_MODULE G t'"
  by (simp add: CORE_IN_MODULE_def)

lemma calculate_settings_no_write: "filter is_hwpf_write (calculate_settings B G) = []"
  by (simp add: calculate_settings_def)

lemma sync_phase_no_write: "filter is_hwpf_write (sync_phase B G tstate) = []"
  by (simp add: sync_phase_def calculate_settings_no_write)

lemma apply_phase_no_write:
  "CORE_IN_MODULE G tstate \<noteq> 0 \<Longrightarrow> fst (apply_phase B G x tstate) = []"
proof -
  assume a: "CORE_IN_MODULE G tstate \<noteq> 0"
  have "CORE_IN_MODULE G (tstate \<lparr>hwpf_msr_dirty := dirty_after_decision x,
      hwpf_msr_value := value_after_decision x\<rparr>) = CORE_IN_MODULE G tstate"
    by (rule CORE_IN_MODULE_cong) simp
  with a show ?thesis by (simp add: apply_phase_def Let_def)
qed

lemma apply_phase_write_lead:
  "e \<in> set (fst (apply_phase B G x tstate)) \<Longrightarrow>
   CORE_IN_MODULE G tstate = 0 \<and> dirty_after_decision x = 1 \<and>
   e = MsrHwpfWrite (core_id tstate)
         (if tunealg G = MAB B then arm_value x else value_after_decision x)"
proof -
  assume e: "e \<in> set (fst (apply_phase B G x tstate))"
  have c: "CORE_IN_MODULE G (tstate \<lparr>hwpf_msr_dirty := dirty_after_decision x,
      hwpf_msr_value := value_after_decision x\<rparr>) = CORE_IN_MODULE G tstate"
    by (rule CORE_IN_MODULE_cong) simp
  from e show ?thesis
    by (simp add: apply_phase_def Let_def c split: if_splits)
qed

lemma tick_no_write:
  "CORE_IN_MODULE G (fst s) \<noteq> 0 \<Longrightarrow> filter is_hwpf_write (fst (tick B G x s)) = []"
proof -
  assume a: "CORE_IN_MODULE G (fst s) \<noteq> 0"
  have "CORE_IN_MODULE G (fst (sample_phase B G x s)) = CORE_IN_MODULE G (fst s)"
    by (rule CORE_IN_MODULE_cong) (rule sample_phase_core_id)
  with a have "fst (apply_phase B G x (fst (sample_phase B G x s))) = []"
    by (simp add: apply_phase_no_write)
  then show ?thesis
    by (simp add: tick_def Let_def sync_phase_no_write)
qed

lemma thread_loop_no_write:
  "CORE_IN_MODULE G (fst s) \<noteq> 0 \<Longrightarrow> filter is_hwpf_write (fst (thread_loop B G xs s)) = []"
proof (induction xs arbitrary: s)
  case Nil
  then show ?case by simp
next
  case (Cons x xs)
  have "CORE_IN_MODULE G (fst (snd (tick B G x s))) = CORE_IN_MODULE G (fst s)"
    by (rule CORE_IN_MODULE_cong) (rule tick_core_id)
  with Cons.prems have "filter is_hwpf_write (fst (thread_loop B G xs (snd (tick B G x s)))) = []"
    by (simp add: Cons.IH)
  with Cons.prems show ?case by (simp add: tick_no_write)
qed

lemma bandwidth_test_no_write:
  "bandwidth_test G i tstate = Inr evs \<Longrightarrow> filter is_hwpf_write evs = []"
  by (auto simp: bandwidth_test_def split: if_splits)

lemma bandwidth_test_exit_no_write:
  "bandwidth_test G i tstate = Inl evs \<Longrightarrow> filter is_hwpf_write evs = []"
  by (auto simp: bandwidth_test_def split: if_splits)

lemma msr_setup_writes:
  "filter is_hwpf_write (fst (msr_setup i tstate)) = [MsrHwpfWrite (core_id tstate) (msr_loaded i)]"
  by (simp add: msr_setup_def Let_def)

lemma msr_setup_core_id: "core_id (snd (msr_setup i tstate)) = core_id tstate"
  by (simp add: msr_setup_def Let_def)

lemma thread_exit_no_write: "filter is_hwpf_write (thread_exit tstate) = []"
  by (simp add: thread_exit_def)

lemma filter_take_empty: "filter P xs = [] \<Longrightarrow> filter P (take n xs) = []"
  by (auto simp: filter_empty_conv dest: in_set_takeD)

lemma filter_take_one_write:
  assumes "filter P a = []" and "\<not> P x" and "P y" and "filter P rest = []"
  shows "filter P (take n (a @ x # y # rest)) = (if length a + 2 \<le> n then [y] else [])"
proof -
  have t: "take n (a @ x # y # rest) = take n a @ take (n - length a) (x # y # rest)"
    by simp
  have e: "filter P (take n a) = []"
    using assms(1) by (rule filter_take_empty)
  show ?thesis
  proof (cases "n - length a")
    case 0
    then show ?thesis using e by (simp add: t)
  next
    case (Suc k)
    note k = Suc
    show ?thesis
    proof (cases k)
      case 0
      with k show ?thesis using e assms(2) by (simp add: t) 
    next
      case (Suc j)
      with k have "length a + 2 \<le> n" by simp
      moreover have "filter P (take j rest) = []"
        using assms(4) by (rule filter_take_empty)
      ultimately show ?thesis using e assms(2,3) k Suc by (simp add: t)
    qed
  qed
qed

lemma thread_start_goes_on:
  "bandwidth_test G i tstate = Inr evs \<Longrightarrow>
   thread_start B G i xs tstate l =
     evs @ MsrInit (core_id tstate) # MsrHwpfWrite (core_id tstate) (msr_loaded i) #
       ([MsrEnableFixed (core_id tstate), PmuCoreConfig (core_id tstate)] @
        fst (thread_loop B G xs (snd (msr_setup i tstate), l)) @
        thread_exit (fst (snd (thread_loop B G xs (snd (msr_setup i tstate), l)))))"
  by (simp add: thread_start_def msr_setup_def Let_def)

text \<open>
  Claim C1, as the code has it. A worker whose core is not the first of its module
  (\<open>CORE_IN_MODULE\<close> is not 0) never calls \<open>msr_hwpf_write\<close> in the loop, however many
  iterations it runs and whatever the tuner leaves in its state. The initialisation is
  not guarded: a worker that gets as far as line 149 calls \<open>msr_hwpf_write\<close> there, once,
  with \<open>tstate->hwpf_msr_value\<close> as it is after \<open>msr_init\<close>, whatever its position. So
  whenever the process ends, what such a worker has done holds that one write if the
  worker came out of the bandwidth self-test and reached line 149 before the end, and no
  write at all otherwise: not when it spins in a busy-wait of the self-test for ever, and
  not when \<open>exit\<close> in another thread ends it before that line.
\<close>

theorem msr_writes_of_non_lead_worker:
  assumes "CORE_IN_MODULE G tstate \<noteq> 0"
  shows "filter is_hwpf_write (fst (thread_loop B G xs (snd (msr_setup i tstate), l))) = []
    \<and> (case bandwidth_test G i tstate of
         Inl evs \<Rightarrow> filter is_hwpf_write (cut_short n (thread_start B G i xs tstate l)) = []
       | Inr evs \<Rightarrow> filter is_hwpf_write (cut_short n (thread_start B G i xs tstate l)) =
           (if length evs + 2 \<le> n
            then [MsrHwpfWrite (core_id tstate) (msr_loaded i)] else []))"
proof -
  have c: "CORE_IN_MODULE G (fst (snd (msr_setup i tstate), l)) \<noteq> 0"
    using assms CORE_IN_MODULE_cong [OF msr_setup_core_id, of G i tstate] by simp
  have loop: "filter is_hwpf_write (fst (thread_loop B G xs (snd (msr_setup i tstate), l))) = []"
    using c by (rule thread_loop_no_write)
  have start: "case bandwidth_test G i tstate of
         Inl evs \<Rightarrow> filter is_hwpf_write (cut_short n (thread_start B G i xs tstate l)) = []
       | Inr evs \<Rightarrow> filter is_hwpf_write (cut_short n (thread_start B G i xs tstate l)) =
           (if length evs + 2 \<le> n
            then [MsrHwpfWrite (core_id tstate) (msr_loaded i)] else [])"
  proof (cases "bandwidth_test G i tstate")
    case (Inl evs)
    then have "filter is_hwpf_write (thread_start B G i xs tstate l) = []"
      by (simp add: thread_start_def bandwidth_test_exit_no_write)
    then have "filter is_hwpf_write (take n (thread_start B G i xs tstate l)) = []"
      by (rule filter_take_empty)
    with Inl show ?thesis by (simp add: cut_short_def)
  next
    case (Inr evs)
    have r: "filter is_hwpf_write
        ([MsrEnableFixed (core_id tstate), PmuCoreConfig (core_id tstate)] @
         fst (thread_loop B G xs (snd (msr_setup i tstate), l)) @
         thread_exit (fst (snd (thread_loop B G xs (snd (msr_setup i tstate), l))))) = []"
      by (simp add: loop thread_exit_no_write)
    have "filter is_hwpf_write (take n (thread_start B G i xs tstate l)) =
        (if length evs + 2 \<le> n then [MsrHwpfWrite (core_id tstate) (msr_loaded i)] else [])"
      unfolding thread_start_goes_on [OF Inr]
      by (rule filter_take_one_write [OF bandwidth_test_no_write [OF Inr] _ _ r]) simp_all
    with Inr show ?thesis by (simp add: cut_short_def)
  qed
  from loop start show ?thesis by simp
qed

theorem msr_writes_of_non_lead_worker_witness:
  "CORE_IN_MODULE example_globals (example_tstate 2) \<noteq> 0
   \<and> bandwidth_test example_globals example_init (example_tstate 2) = Inr []
   \<and> filter is_hwpf_write
        (fst (thread_loop example_build example_globals [example_tick]
           (snd (msr_setup example_init (example_tstate 2)), example_locals))) = []
   \<and> filter is_hwpf_write
        (cut_short 7 (thread_start example_build example_globals example_init [example_tick]
           (example_tstate 2) example_locals)) = [MsrHwpfWrite 2 11]
   \<and> filter is_hwpf_write
        (cut_short 1 (thread_start example_build example_globals example_init [example_tick]
           (example_tstate 2) example_locals)) = []
   \<and> bandwidth_test example_globals example_init_stuck (example_tstate 2) = Inl [BwFlagAdd 1]
   \<and> filter is_hwpf_write
        (cut_short 7 (thread_start example_build example_globals example_init_stuck
           [example_tick] (example_tstate 2) example_locals)) = []"
proof -
  have a: "CORE_IN_MODULE example_globals (example_tstate 2) \<noteq> 0"
    by (simp add: CORE_IN_MODULE_def c_rem_def examples)
  have b: "bandwidth_test example_globals example_init (example_tstate 2) = Inr []"
    by (simp add: bandwidth_test_def DDR_BW_AUTOTEST_def examples)
  have s: "bandwidth_test example_globals example_init_stuck (example_tstate 2) = Inl [BwFlagAdd 1]"
    by (simp add: bandwidth_test_def DDR_BW_AUTOTEST_def examples example_init_stuck_def)
  have c: "core_id (example_tstate 2) = 2" "msr_loaded example_init = 11"
    by (simp_all add: examples)
  note t = msr_writes_of_non_lead_worker [OF a, of example_build "[example_tick]" _ example_locals]
  show ?thesis
    using a b s t [of example_init 7] t [of example_init 1] t [of example_init_stuck 7]
    by (simp add: c)
qed

text \<open>
  The claim as the spec states it fails in the initialisation: the worker on core 1
  (position 1 in its module) writes the prefetcher registers once.
\<close>

theorem non_lead_worker_writes_msr_counterexample:
  "CORE_IN_MODULE example_globals (example_tstate 1) = 1
   \<and> filter is_hwpf_write
        (thread_start example_build example_globals example_init [example_tick]
           (example_tstate 1) example_locals) = [MsrHwpfWrite 1 11]"
  by (simp add: trace_core_1) (simp add: CORE_IN_MODULE_def c_rem_def examples)

lemma loop_writes_only_on_module_lead:
  "e \<in> set (fst (thread_loop B G xs s)) \<Longrightarrow> is_hwpf_write e \<Longrightarrow> CORE_IN_MODULE G (fst s) = 0"
proof -
  assume e: "e \<in> set (fst (thread_loop B G xs s))" and w: "is_hwpf_write e"
  show ?thesis
  proof (rule ccontr)
    assume "CORE_IN_MODULE G (fst s) \<noteq> 0"
    then have "filter is_hwpf_write (fst (thread_loop B G xs s)) = []"
      by (rule thread_loop_no_write)
    with e w show False by (simp add: filter_empty_conv)
  qed
qed

text \<open>
  Claim C3, as the code has it. With the basic algorithms (\<open>tunealg\<close> is not \<open>MAB\<close>) the
  published \<open>pmu_result[i]\<close> is the 64-bit difference of the new and the previous
  sample. As an unsigned number it is never negative. When the new sample is smaller
  than the previous one the difference wraps around: the published value is
  \<open>2^64 - (previous - new)\<close>, which is not zero; otherwise it is \<open>new - previous\<close>.
\<close>

theorem pmu_delta_is_modular_difference:
  assumes "tunealg G \<noteq> MAB B" and "i < PMU_COUNTERS B"
  shows "pmu_result (fst (sample_phase B G x (tstate, l))) ! i = pmu_read x ! i - pmu_new l ! i
    \<and> 0 \<le> uint (pmu_result (fst (sample_phase B G x (tstate, l))) ! i)
    \<and> (if pmu_read x ! i < pmu_new l ! i
        then uint (pmu_result (fst (sample_phase B G x (tstate, l))) ! i) =
               2 ^ 64 - (uint (pmu_new l ! i) - uint (pmu_read x ! i))
             \<and> pmu_result (fst (sample_phase B G x (tstate, l))) ! i \<noteq> 0
        else uint (pmu_result (fst (sample_phase B G x (tstate, l))) ! i) =
               uint (pmu_read x ! i) - uint (pmu_new l ! i))"
proof -
  let ?n = "pmu_read x ! i" and ?o = "pmu_new l ! i"
  have r: "pmu_result (fst (sample_phase B G x (tstate, l))) ! i = ?n - ?o"
    using assms by (simp add: sample_phase_def Let_def)
  have d: "uint (?n - ?o) = (uint ?n - uint ?o) mod 2 ^ 64"
    by (simp add: uint_word_ariths)
  have bn: "0 \<le> uint ?n" "uint ?n < 2 ^ 64" and bo: "0 \<le> uint ?o" "uint ?o < 2 ^ 64"
    using uint_lt2p [of ?n] uint_lt2p [of ?o] by simp_all
  have nn: "0 \<le> uint (pmu_result (fst (sample_phase B G x (tstate, l))) ! i)"
    by simp
  have "if ?n < ?o
        then uint (?n - ?o) = 2 ^ 64 - (uint ?o - uint ?n) \<and> ?n - ?o \<noteq> 0
        else uint (?n - ?o) = uint ?n - uint ?o"
  proof (cases "?n < ?o")
    case True
    then have lt: "uint ?n < uint ?o" by (simp add: word_less_def)
    have "(uint ?n - uint ?o) mod 2 ^ 64 = (uint ?n - uint ?o + 2 ^ 64) mod 2 ^ 64"
      by simp
    also have "\<dots> = uint ?n - uint ?o + 2 ^ 64"
      by (rule mod_pos_pos_trivial) (use lt bn bo in linarith)+
    finally have u: "uint (?n - ?o) = 2 ^ 64 - (uint ?o - uint ?n)"
      using d by simp
    have nz: "?n - ?o \<noteq> 0" using True by simp
    show ?thesis using True u nz
      by (simp only: if_True simp_thms)
  next
    case False
    then have ge: "uint ?o \<le> uint ?n" by (simp add: word_less_def)
    have "(uint ?n - uint ?o) mod 2 ^ 64 = uint ?n - uint ?o"
      by (rule mod_pos_pos_trivial) (use ge bn bo in linarith)+
    then have u: "uint (?n - ?o) = uint ?n - uint ?o"
      using d by simp
    show ?thesis using False u
      by (simp only: if_False simp_thms)
  qed
  then show ?thesis
    using nn by (simp only: r simp_thms)
qed

theorem pmu_delta_is_modular_difference_witness:
  "tunealg example_globals \<noteq> MAB example_build \<and> 0 < PMU_COUNTERS example_build
   \<and> pmu_read example_tick ! 0 < pmu_new example_locals ! 0
   \<and> uint (pmu_result (fst (sample_phase example_build example_globals example_tick
        (example_tstate 0, example_locals))) ! 0) = 2 ^ 64 - 5"
proof -
  have a: "tunealg example_globals \<noteq> MAB example_build"
    by (simp add: examples)
  have b: "0 < PMU_COUNTERS example_build"
    by (simp add: examples)
  have n: "pmu_read example_tick ! 0 = 5" "pmu_new example_locals ! 0 = 10"
    by (simp_all add: examples)
  have c: "pmu_read example_tick ! 0 < pmu_new example_locals ! 0"
    by (simp add: n)
  show ?thesis
    using a b c
      pmu_delta_is_modular_difference [OF a b, of example_tick "example_tstate 0" example_locals]
    by (simp add: n)
qed

text \<open>
  The claim as the spec states it fails: after the samples 10 and then 5 the published
  delta is \<open>2^64 - 5\<close>, not zero.
\<close>

theorem pmu_delta_zero_on_decrease_counterexample:
  "pmu_new example_locals ! 0 = 10 \<and> pmu_read example_tick ! 0 = 5
   \<and> pmu_result (fst (sample_phase example_build example_globals example_tick
        (example_tstate 0, example_locals))) ! 0 = 18446744073709551611
   \<and> pmu_result (fst (sample_phase example_build example_globals example_tick
        (example_tstate 0, example_locals))) ! 0 \<noteq> 0"
  by (simp add: sample_phase_def Let_def examples upt_rec)

lemma hardware_after_append:
  "hardware_after (evs @ evs') hw = hardware_after evs' (hardware_after evs hw)"
  by (induction evs hw rule: hardware_after.induct) (simp_all add: fun_upd_def)

lemma hardware_after_no_write:
  "filter is_hwpf_write evs = [] \<Longrightarrow> hardware_after evs hw = hw"
  by (induction evs hw rule: hardware_after.induct) (simp_all add: fun_upd_def)

lemma sigintHandler_no_write: "filter is_hwpf_write (sigintHandler B G d) = []"
  by (simp add: sigintHandler_def)

text \<open>
  Claim C4, as the code has it. Neither way out writes the prefetcher registers. After
  the loop a worker only closes its MSR file; \<open>sigintHandler\<close> sets \<open>quitflag\<close>, resets
  RDT when it is enabled and calls \<open>exit(1)\<close>. So the registers keep what the
  initialisation and the loop wrote last: after a worker has run, the hardware holds the
  image the loop left, starting from the image the initialisation wrote.
\<close>

theorem shutdown_leaves_registers:
  "thread_exit tstate = [CloseMsr (core_id tstate)]
   \<and> hardware_after (thread_exit tstate) hw = hw
   \<and> hardware_after (sigintHandler B G d) hw = hw
   \<and> (case bandwidth_test G i tstate of
        Inl evs \<Rightarrow> hardware_after (thread_start B G i xs tstate l) hw = hw
      | Inr evs \<Rightarrow> hardware_after (thread_start B G i xs tstate l) hw =
          hardware_after (fst (thread_loop B G xs (snd (msr_setup i tstate), l)))
            (hw (core_id tstate := msr_loaded i)))"
proof -
  have a: "hardware_after (thread_exit tstate) hw = hw" for tstate :: "'a thread_state" and hw
    by (simp add: thread_exit_def)
  have b: "hardware_after (sigintHandler B G d) hw = hw"
    by (rule hardware_after_no_write) (rule sigintHandler_no_write)
  have c: "case bandwidth_test G i tstate of
        Inl evs \<Rightarrow> hardware_after (thread_start B G i xs tstate l) hw = hw
      | Inr evs \<Rightarrow> hardware_after (thread_start B G i xs tstate l) hw =
          hardware_after (fst (thread_loop B G xs (snd (msr_setup i tstate), l)))
            (hw (core_id tstate := msr_loaded i))"
  proof (cases "bandwidth_test G i tstate")
    case (Inl evs)
    then show ?thesis
      by (simp add: thread_start_def hardware_after_no_write bandwidth_test_exit_no_write)
  next
    case (Inr evs)
    have s: "hardware_after (fst (msr_setup i tstate)) hw = hw (core_id tstate := msr_loaded i)" for hw
      by (simp add: msr_setup_def Let_def)
    show ?thesis
      using Inr
      by (simp add: thread_start_def hardware_after_append a s
          hardware_after_no_write [OF bandwidth_test_no_write [OF Inr]])
  qed
  from a b c show ?thesis by (simp add: thread_exit_def)
qed

theorem shutdown_leaves_registers_witness:
  "bandwidth_test example_globals example_init (example_tstate 4) = Inr []
   \<and> hardware_after
        (thread_start example_build example_globals example_init [example_tick]
           (example_tstate 4) example_locals) (\<lambda>c. 11) =
      hardware_after
        (fst (thread_loop example_build example_globals [example_tick]
           (snd (msr_setup example_init (example_tstate 4)), example_locals)))
        ((\<lambda>c. 11) (core_id (example_tstate 4) := msr_loaded example_init))
   \<and> hardware_after (sigintHandler example_build example_globals False) (\<lambda>c. 77 :: nat) =
      (\<lambda>c. 77)"
proof -
  have b: "bandwidth_test example_globals example_init (example_tstate 4) = Inr []"
    by (simp add: bandwidth_test_def DDR_BW_AUTOTEST_def examples)
  show ?thesis
    using b
      shutdown_leaves_registers [of "example_tstate 4" "\<lambda>c. 11" example_build
        example_globals False example_init "[example_tick]" example_locals]
      shutdown_leaves_registers [of "example_tstate 4" "\<lambda>c. 77" example_build
        example_globals False example_init "[example_tick]" example_locals]
    by simp
qed

text \<open>
  The claim as the spec states it fails on both paths: the worker of module-lead core 0
  starts with the image 11, the tuner has it write 77, and after the worker has left the
  loop, or after \<open>sigintHandler\<close> has run, the registers hold 77; no write follows the
  loop.
\<close>

theorem shutdown_does_not_restore_counterexample:
  "CORE_IN_MODULE example_globals (example_tstate 0) = 0
   \<and> msr_loaded example_init = 11
   \<and> hardware_after
        (thread_start example_build example_globals example_init [example_tick]
           (example_tstate 0) example_locals) (\<lambda>c. 11) 0 = 77
   \<and> filter is_hwpf_write (thread_exit (example_tstate 0)) = []
   \<and> hardware_after
        (fst (msr_setup example_init (example_tstate 0)) @
         fst (thread_loop example_build example_globals [example_tick]
           (snd (msr_setup example_init (example_tstate 0)), example_locals)) @
         sigintHandler example_build example_globals False) (\<lambda>c. 11) 0 = 77
   \<and> filter is_hwpf_write (sigintHandler example_build example_globals False) = []"
  by (simp add: trace_core_0 sigintHandler_no_write thread_exit_no_write)
    (simp add: eval_thread sigintHandler_def examples)




section \<open>Properties of the rendezvous\<close>























section \<open>Properties of the pseudo-file\<close>

lemma handler_outcome:
  "fst (dispatch C E t req K) < 0 \<and> snd (dispatch C E t req K) = K
   \<or> fst (dispatch C E t req K) = 0
     \<and> (\<exists>r. proc_buffer (snd (dispatch C E t req K)) = Response r
            \<and> proc_buffer_size (snd (dispatch C E t req K)) = resp_size E r)"
  by (cases t)
    (simp_all add: handle_init_def handle_core_range_def handle_core_weight_def
      handle_tuning_def handle_ddrbw_set_def handle_pmu_read_def handle_msr_read_def
      publish_def EINVAL_def ENOMEM_def)

lemma discard_response_Null: "proc_buffer (discard_response K) = Null"
  by (simp add: discard_response_def)

lemma write_unfold:
  "\<not> (msg_count req < HEADER_SIZE C \<or> msg_count req > MAX_MSG_SIZE C) \<Longrightarrow>
   dpf_proc_write C E req K =
     (if header_copy_fails E then (- EFAULT, discard_response K)
      else if msg_alloc_fails E then (- ENOMEM, discard_response K)
      else if msg_copy_fails E then (- EFAULT, discard_response K)
      else (if fst (dispatch C E (header_type req) req (discard_response K)) < 0
            then fst (dispatch C E (header_type req) req (discard_response K))
            else int (msg_count req),
            snd (dispatch C E (header_type req) req (discard_response K))))"
  by (simp add: dpf_proc_write_def Let_def)

lemma write_failed:
  assumes "\<not> (msg_count req < HEADER_SIZE C \<or> msg_count req > MAX_MSG_SIZE C)"
    and "fst (dpf_proc_write C E req K) < 0"
  shows "proc_buffer (snd (dpf_proc_write C E req K)) = Null"
proof -
  note u = write_unfold [OF assms(1), of E K]
  consider "header_copy_fails E \<or> msg_alloc_fails E \<or> msg_copy_fails E"
    | "\<not> header_copy_fails E" "\<not> msg_alloc_fails E" "\<not> msg_copy_fails E" by blast
  then show ?thesis
  proof cases
    case 1
    then show ?thesis by (auto simp: u discard_response_Null)
  next
    case 2
    with assms(2) have neg: "fst (dispatch C E (header_type req) req (discard_response K)) < 0"
      by (simp add: u split: if_splits)
    with handler_outcome [of C E "header_type req" req "discard_response K"]
    have "snd (dispatch C E (header_type req) req (discard_response K)) = discard_response K" by auto
    with 2 show ?thesis by (simp add: u discard_response_Null)
  qed
qed

lemma write_succeeded:
  assumes "\<not> (msg_count req < HEADER_SIZE C \<or> msg_count req > MAX_MSG_SIZE C)"
    and "\<not> fst (dpf_proc_write C E req K) < 0"
  shows "fst (dpf_proc_write C E req K) = int (msg_count req)
    \<and> (\<exists>r. proc_buffer (snd (dpf_proc_write C E req K)) = Response r
           \<and> proc_buffer_size (snd (dpf_proc_write C E req K)) = resp_size E r)"
proof -
  note u = write_unfold [OF assms(1), of E K]
  from assms(2) have ok: "\<not> header_copy_fails E" "\<not> msg_alloc_fails E" "\<not> msg_copy_fails E"
    by (auto simp: u EFAULT_def ENOMEM_def split: if_splits)
  with assms(2) have nneg: "\<not> fst (dispatch C E (header_type req) req (discard_response K)) < 0"
    by (simp add: u split: if_splits)
  with handler_outcome [of C E "header_type req" req "discard_response K"]
  have "\<exists>r. proc_buffer (snd (dispatch C E (header_type req) req (discard_response K))) = Response r
      \<and> proc_buffer_size (snd (dispatch C E (header_type req) req (discard_response K))) = resp_size E r"
    by auto
  with ok nneg show ?thesis by (simp add: u)
qed


text \<open>
  Claim C7, as the code has it. A write whose size fails the test (shorter than the
  header or longer than \<open>MAX_MSG_SIZE\<close>) changes nothing, so the previous response stays
  readable. Every other write first frees the previous response. When it then fails
  (an unknown message type, a disabled or invalid core, a failed copy or allocation) no
  response is left and every read returns 0 bytes; when it succeeds the buffer holds the
  response to this very request, which a read at position 0 with room for it delivers.
\<close>

theorem failed_write_discards_previous_response:
  "(if msg_count req < HEADER_SIZE C \<or> msg_count req > MAX_MSG_SIZE C
    then dpf_proc_write C E req K = (- EINVAL, K)
    else if fst (dpf_proc_write C E req K) < 0
    then proc_buffer (snd (dpf_proc_write C E req K)) = Null
       \<and> proc_read E' count pos (snd (dpf_proc_write C E req K)) = (0, None, pos)
    else fst (dpf_proc_write C E req K) = int (msg_count req)
       \<and> (\<exists>r. proc_buffer (snd (dpf_proc_write C E req K)) = Response r
              \<and> proc_buffer_size (snd (dpf_proc_write C E req K)) = resp_size E r
              \<and> proc_read E' count pos (snd (dpf_proc_write C E req K)) =
                  (if pos > 0 \<or> count < resp_size E r then (0, None, pos)
                   else if user_copy_fails E' then (- EFAULT, None, pos)
                   else (int (resp_size E r), Some (Response r), resp_size E r))))"
proof (cases "msg_count req < HEADER_SIZE C \<or> msg_count req > MAX_MSG_SIZE C")
  case True
  then show ?thesis by (simp add: dpf_proc_write_def)
next
  case size_ok: False
  show ?thesis
  proof (cases "fst (dpf_proc_write C E req K) < 0")
    case True
    have "proc_buffer (snd (dpf_proc_write C E req K)) = Null"
      using size_ok True by (rule write_failed)
    then show ?thesis using size_ok True by (simp add: proc_read_def)
  next
    case False
    from write_succeeded [OF size_ok False]
    obtain r where r: "fst (dpf_proc_write C E req K) = int (msg_count req)"
      "proc_buffer (snd (dpf_proc_write C E req K)) = Response r"
      "proc_buffer_size (snd (dpf_proc_write C E req K)) = resp_size E r"
      by blast
    have "proc_read E' count pos (snd (dpf_proc_write C E req K)) =
        (if pos > 0 \<or> count < resp_size E r then (0, None, pos)
         else if user_copy_fails E' then (- EFAULT, None, pos)
         else (int (resp_size E r), Some (Response r), resp_size E r))"
      by (simp add: proc_read_def r)
    with r have "\<exists>r. proc_buffer (snd (dpf_proc_write C E req K)) = Response r
              \<and> proc_buffer_size (snd (dpf_proc_write C E req K)) = resp_size E r
              \<and> proc_read E' count pos (snd (dpf_proc_write C E req K)) =
                  (if pos > 0 \<or> count < resp_size E r then (0, None, pos)
                   else if user_copy_fails E' then (- EFAULT, None, pos)
                   else (int (resp_size E r), Some (Response r), resp_size E r))"
      by blast
    with r(1) size_ok False show ?thesis by (simp only: if_False simp_thms)
  qed
qed

theorem failed_write_discards_previous_response_witness:
  "\<not> (msg_count example_init_msg < HEADER_SIZE example_kconsts
       \<or> msg_count example_init_msg > MAX_MSG_SIZE example_kconsts)
   \<and> \<not> fst (dpf_proc_write example_kconsts example_kenv example_init_msg example_kstate) < 0
   \<and> (\<exists>r. proc_buffer
              (snd (dpf_proc_write example_kconsts example_kenv example_init_msg example_kstate)) =
            Response r
          \<and> proc_read example_kenv 1024 0
              (snd (dpf_proc_write example_kconsts example_kenv example_init_msg example_kstate)) =
            (12, Some (Response r), 12))"
proof -
  have w: "dpf_proc_write example_kconsts example_kenv example_init_msg example_kstate =
      (8, example_kstate \<lparr>proc_buffer := Response (RespInit 1), proc_buffer_size := 12\<rparr>)"
    by (simp add: dpf_proc_write_def discard_response_def handle_init_def publish_def
        example_kconsts_def example_kenv_def example_init_msg_def example_kstate_def)
  have a: "\<not> (msg_count example_init_msg < HEADER_SIZE example_kconsts
       \<or> msg_count example_init_msg > MAX_MSG_SIZE example_kconsts)"
    by (simp add: example_kconsts_def example_init_msg_def)
  have b: "\<not> fst (dpf_proc_write example_kconsts example_kenv example_init_msg example_kstate) < 0"
    by (simp add: w)
  have s: "resp_size example_kenv = (\<lambda>r. 12)" "\<not> user_copy_fails example_kenv"
    by (simp_all add: example_kenv_def)
  have "\<exists>r. proc_buffer
              (snd (dpf_proc_write example_kconsts example_kenv example_init_msg example_kstate)) =
            Response r
          \<and> proc_read example_kenv 1024 0
              (snd (dpf_proc_write example_kconsts example_kenv example_init_msg example_kstate)) =
            (12, Some (Response r), 12)"
    using a b
      failed_write_discards_previous_response [of example_init_msg example_kconsts example_kenv
        example_kstate example_kenv 1024 0]
    by (simp add: s) blast
  with a b show ?thesis by blast
qed

text \<open>
  The claim as the spec states it fails: while the response to \<open>INIT\<close> is waiting, a
  well-sized write with an unknown message type returns \<open>-EINVAL\<close> and leaves nothing to
  read, where the read before it delivered the twelve bytes of the response.
\<close>

theorem unknown_type_discards_response_counterexample:
  "proc_read example_kenv 1024 0 example_kstate = (12, Some (Response (RespInit 1)), 12)
   \<and> fst (dpf_proc_write example_kconsts example_kenv example_unknown_msg example_kstate) = - 22
   \<and> proc_buffer
        (snd (dpf_proc_write example_kconsts example_kenv example_unknown_msg example_kstate)) = Null
   \<and> proc_read example_kenv 1024 0
        (snd (dpf_proc_write example_kconsts example_kenv example_unknown_msg example_kstate)) =
      (0, None, 0)"
  by (simp add: proc_read_def dpf_proc_write_def discard_response_def example_kconsts_def
      example_kenv_def example_unknown_msg_def example_kstate_def EINVAL_def)

end
